theory Spec2Isabelle
  imports Main
begin

section \<open>JavaScript values and exceptions\<close>

text \<open>
  The values \<^verbatim>\<open>JSON.parse\<close> produces. A number is kept as its decimal rendering, the
  string that both \<^verbatim>\<open>String(n)\<close> and \<^verbatim>\<open>JSON.stringify(n)\<close> yield for it (so zero is
  \<open>''0''\<close>): the program does nothing else with a number. An object is the list of its own
  properties. A value of type \<open>json option\<close> is a JavaScript value that may be
  \<^verbatim>\<open>undefined\<close> (\<open>None\<close>).
\<close>

datatype json =
    JNull
  | JBool bool
  | JNum string
  | JStr string
  | JArr "json list"
  | JObj "(string \<times> json) list"

text \<open>
  What a \<^verbatim>\<open>throw\<close> or a rejected promise carries. \<open>Error\<close>, \<open>TypeError\<close> and
  \<open>SyntaxError\<close> are instances of \<^verbatim>\<open>Error\<close> and carry their message; \<open>NonError\<close> is
  any other thrown value.
\<close>

datatype thrown =
    Error string
  | TypeError string
  | SyntaxError string
  | NonError

text \<open>The run-time's own \<^verbatim>\<open>TypeError\<close>s; their message texts belong to the engine.\<close>

datatype type_error = DestructureNull | PropertyOfNull | ToPrimitive

fun instanceof_Error :: "thrown \<Rightarrow> bool" where
  "instanceof_Error NonError = False"
| "instanceof_Error _ = True"

fun message :: "thrown \<Rightarrow> string" where
  "message (Error m) = m"
| "message (TypeError m) = m"
| "message (SyntaxError m) = m"
| "message NonError = []"

text \<open>Truthiness of a string that may be \<^verbatim>\<open>null\<close>/\<^verbatim>\<open>undefined\<close>, and of a JSON value.\<close>

fun truthy :: "string option \<Rightarrow> bool" where
  "truthy None = False"
| "truthy (Some s) = (s \<noteq> [])"

fun js_truthy :: "json \<Rightarrow> bool" where
  "js_truthy JNull = False"
| "js_truthy (JBool b) = b"
| "js_truthy (JNum r) = (r \<noteq> ''0'')"
| "js_truthy (JStr s) = (s \<noteq> [])"
| "js_truthy (JArr xs) = True"
| "js_truthy (JObj props) = True"

text \<open>\<^verbatim>\<open>a || b\<close> on strings that may be absent.\<close>

definition js_or :: "string option \<Rightarrow> string option \<Rightarrow> string option" where
  "js_or a b = (if truthy a then a else b)"

text \<open>
  \<^verbatim>\<open>v.k\<close> and \<^verbatim>\<open>k in v\<close> for the property names the program uses (\<^verbatim>\<open>type\<close>,
  \<^verbatim>\<open>payload\<close>, \<^verbatim>\<open>requestId\<close>, \<^verbatim>\<open>title\<close>, \<^verbatim>\<open>body\<close>, \<^verbatim>\<open>data\<close>, \<^verbatim>\<open>error\<close>): none of them is
  inherited from a prototype, so only an object's own properties answer. Reading a property
  of \<^verbatim>\<open>null\<close> raises instead; the callers treat \<open>JNull\<close> before they get here.
\<close>

fun get_prop :: "json \<Rightarrow> string \<Rightarrow> json option" where
  "get_prop (JObj props) k = map_of props k"
| "get_prop _ k = None"

fun has_property :: "string \<Rightarrow> json \<Rightarrow> bool" where
  "has_property k (JObj props) = (map_of props k \<noteq> None)"
| "has_property k _ = False"

text \<open>\<^verbatim>\<open>typeof v === 'object' && v !== null\<close>.\<close>

fun is_object :: "json option \<Rightarrow> bool" where
  "is_object (Some (JObj props)) = True"
| "is_object (Some (JArr xs)) = True"
| "is_object _ = False"

text \<open>
  \<^verbatim>\<open>Array.prototype.join(',')\<close> over the converted elements: the first conversion that
  raises ends the join.
\<close>

fun join_comma :: "(thrown + string) list \<Rightarrow> thrown + string" where
  "join_comma [] = Inr []"
| "join_comma [r] = r"
| "join_comma (r # rs) =
     (case r of
        Inl e \<Rightarrow> Inl e
      | Inr s \<Rightarrow> (case join_comma rs of Inl e \<Rightarrow> Inl e | Inr t \<Rightarrow> Inr (s @ '','' @ t)))"

text \<open>
  \<^verbatim>\<open>String(v)\<close>. An array joins its elements, \<^verbatim>\<open>null\<close> elements as the empty string.
  An object is converted by the \<^verbatim>\<open>toString\<close> it finds: the inherited one gives
  \<^verbatim>\<open>[object Object]\<close>, but an own property of that name (never callable in parsed JSON)
  hides it, and the conversion raises a \<^verbatim>\<open>TypeError\<close>.
\<close>

fun js_String :: "(type_error \<Rightarrow> string) \<Rightarrow> json \<Rightarrow> thrown + string" where
  "js_String te JNull = Inr ''null''"
| "js_String te (JBool b) = Inr (if b then ''true'' else ''false'')"
| "js_String te (JNum r) = Inr r"
| "js_String te (JStr s) = Inr s"
| "js_String te (JArr xs) =
     join_comma (map (\<lambda>x. if x = JNull then Inr [] else js_String te x) xs)"
| "js_String te (JObj props) =
     (if map_of props ''toString'' = None then Inr ''[object Object]''
      else Inl (TypeError (te ToPrimitive)))"

text \<open>
  The values on which \<^verbatim>\<open>String\<close> raises: an object with an own \<^verbatim>\<open>toString\<close> property,
  and an array that has such a value among its elements.
\<close>

fun String_raises :: "json \<Rightarrow> bool" where
  "String_raises (JObj props) = (map_of props ''toString'' \<noteq> None)"
| "String_raises (JArr xs) = list_ex String_raises xs"
| "String_raises v = False"

section \<open>The world outside the program\<close>

text \<open>\<^verbatim>\<open>NotificationData\<close> of NotificationService.ts.\<close>

record notification_data =
  nd_title :: string
  nd_body :: string
  nd_data :: "json option"

text \<open>\<^verbatim>\<open>BridgeResponse\<close> of WebViewBridge.tsx; an absent field is \<open>None\<close>.\<close>

record bridge_response =
  msg_type :: string
  msg_requestId :: "json option"
  msg_payload :: "json option"
  msg_error :: "string option"

text \<open>What \<^verbatim>\<open>fetch\<close> resolves to: the \<^verbatim>\<open>ok\<close> flag and the outcome of \<^verbatim>\<open>response.json()\<close>.\<close>

record http_response =
  ok :: bool
  json_body :: "thrown + json"

text \<open>
  Everything the program reads from its surroundings during one operation: configuration,
  and the outcome of each call into the operating system, the network and the engine
  (\<open>Inl\<close> when the call raises or its promise rejects). One operation makes each of these
  calls at most once. \<open>extra_eas_projectId\<close> and \<open>extra_backendUrl\<close> are the fields
  under \<^verbatim>\<open>Constants.expoConfig?.extra\<close>, \<open>easConfig_projectId\<close> is
  \<^verbatim>\<open>Constants.easConfig?.projectId\<close>, and \<open>EXPO_PROJECT_ID\<close> and
  \<open>EXPO_PUBLIC_BACKEND_URL\<close> come from \<^verbatim>\<open>process.env\<close>. The permission calls yield the
  \<^verbatim>\<open>status\<close>, the token call yields \<^verbatim>\<open>tokenData.data\<close>. \<open>JSON_parse\<close> is \<open>None\<close>
  where \<^verbatim>\<open>JSON.parse\<close> throws.
\<close>

record env =
  isDevice :: bool
  executionEnvironment :: "string option"
  appOwnership :: "string option"
  extra_eas_projectId :: "string option"
  easConfig_projectId :: "string option"
  EXPO_PROJECT_ID :: "string option"
  extra_backendUrl :: "string option"
  EXPO_PUBLIC_BACKEND_URL :: "string option"
  platformOS :: string
  getPermissionsAsync :: "thrown + string"
  requestPermissionsAsync :: "thrown + string"
  getDevicePushTokenAsync :: "thrown + string"
  setNotificationChannelAsync :: "thrown + unit"
  scheduleNotificationAsync :: "thrown + unit"
  fetch :: "thrown + http_response"
  JSON_parse :: "string \<Rightarrow> json option"
  typeErrorMessage :: "type_error \<Rightarrow> string"

text \<open>
  The observable actions, in the order they happen. \<open>Fetch url body\<close> is a POST of the
  JSON text of \<open>body\<close>; \<open>PostMessage m\<close> is \<^verbatim>\<open>postMessage(JSON.stringify(m))\<close> on the web
  view; a console action keeps the fixed text of the call.
\<close>

datatype effect =
    ConsoleLog string
  | ConsoleWarn string
  | ConsoleError string
  | PostMessage bridge_response
  | Fetch string json
  | SetNotificationHandler
  | GetPermissionsAsync
  | RequestPermissionsAsync
  | GetDevicePushTokenAsync
  | SetNotificationChannelAsync
  | ScheduleNotificationAsync json
  | AddNotificationReceivedListener
  | AddNotificationResponseReceivedListener
  | RemoveSubscription

text \<open>The one field of the \<^verbatim>\<open>NotificationService\<close> singleton.\<close>

record notification_service =
  expoPushToken :: "string option"

section \<open>Control flow: state, exceptions and the trace\<close>

text \<open>
  A piece of the program runs from a service state to an outcome (\<open>Inl\<close> what it threw,
  \<open>Inr\<close> what it returned), the state it leaves and the actions it performed. An
  \<^verbatim>\<open>await\<close> is sequencing: the handlers are modelled one at a time.
\<close>

type_synonym 'a js = "notification_service \<Rightarrow> (thrown + 'a) \<times> notification_service \<times> effect list"

definition returnJ :: "'a \<Rightarrow> 'a js" where
  "returnJ v = (\<lambda>s. (Inr v, s, []))"

definition throwJ :: "thrown \<Rightarrow> 'a js" where
  "throwJ e = (\<lambda>s. (Inl e, s, []))"

definition bindJ :: "'a js \<Rightarrow> ('a \<Rightarrow> 'b js) \<Rightarrow> 'b js" where
  "bindJ m f = (\<lambda>s.
     case m s of
       (Inl e, s1, t1) \<Rightarrow> (Inl e, s1, t1)
     | (Inr v, s1, t1) \<Rightarrow> (case f v s1 of (r, s2, t2) \<Rightarrow> (r, s2, t1 @ t2)))"

definition tryCatch :: "'a js \<Rightarrow> (thrown \<Rightarrow> 'a js) \<Rightarrow> 'a js" where
  "tryCatch m h = (\<lambda>s.
     case m s of
       (Inl e, s1, t1) \<Rightarrow> (case h e s1 of (r, s2, t2) \<Rightarrow> (r, s2, t1 @ t2))
     | (Inr v, s1, t1) \<Rightarrow> (Inr v, s1, t1))"

definition emit :: "effect \<Rightarrow> unit js" where
  "emit a = (\<lambda>s. (Inr (), s, [a]))"

text \<open>A call out of the program: the call is recorded, its outcome comes from the \<open>env\<close>.\<close>

definition await :: "effect \<Rightarrow> thrown + 'a \<Rightarrow> 'a js" where
  "await a r = (\<lambda>s. (r, s, [a]))"

definition liftE :: "thrown + 'a \<Rightarrow> 'a js" where
  "liftE r = (\<lambda>s. (r, s, []))"

definition outcome :: "(thrown + 'a) \<times> notification_service \<times> effect list \<Rightarrow> thrown + 'a" where
  "outcome r = fst r"

definition state_after :: "(thrown + 'a) \<times> notification_service \<times> effect list \<Rightarrow> notification_service" where
  "state_after r = fst (snd r)"

definition trace :: "(thrown + 'a) \<times> notification_service \<times> effect list \<Rightarrow> effect list" where
  "trace r = snd (snd r)"

section \<open>NotificationService.ts\<close>

definition isRunningInExpoGo :: "env \<Rightarrow> bool" where
  "isRunningInExpoGo e =
     (executionEnvironment e = Some ''storeClient'' \<or> appOwnership e = Some ''expo'')"

definition resolveProjectId :: "env \<Rightarrow> string option" where
  "resolveProjectId e =
     js_or (js_or (extra_eas_projectId e) (easConfig_projectId e)) (EXPO_PROJECT_ID e)"

definition getBackendBaseUrl :: "env \<Rightarrow> string option" where
  "getBackendBaseUrl e =
     js_or (js_or (extra_backendUrl e) (EXPO_PUBLIC_BACKEND_URL e))
       (Some ''https://5fd5bd8a6a0c.ngrok-free.app'')"

definition getExpoPushToken :: "string option js" where
  "getExpoPushToken = (\<lambda>s. (Inr (expoPushToken s), s, []))"

definition set_expoPushToken :: "string option \<Rightarrow> unit js" where
  "set_expoPushToken t = (\<lambda>s. (Inr (), s\<lparr>expoPushToken := t\<rparr>, []))"

text \<open>A string that may be \<^verbatim>\<open>null\<close>, as JSON.\<close>

fun json_of_token :: "string option \<Rightarrow> json" where
  "json_of_token None = JNull"
| "json_of_token (Some t) = JStr t"

text \<open>\<^verbatim>\<open>notificationData.data || {}\<close>: the data field is an object or absent.\<close>

fun data_or_empty :: "json option \<Rightarrow> json" where
  "data_or_empty None = JObj []"
| "data_or_empty (Some d) = (if js_truthy d then d else JObj [])"

definition sendTokenToBackend :: "env \<Rightarrow> string \<Rightarrow> unit js" where
  "sendTokenToBackend e token =
     (case getBackendBaseUrl e of
        None \<Rightarrow> emit (ConsoleWarn ''No backend URL configured; skipping device token registration.'')
      | Some backendUrl \<Rightarrow>
          if backendUrl = [] then
            emit (ConsoleWarn ''No backend URL configured; skipping device token registration.'')
          else
            tryCatch
              (bindJ (await
                        (Fetch (backendUrl @ ''/save-token'')
                           (JObj [(''name'', JStr ''User''), (''fcm_device_token'', JStr token)]))
                        (fetch e))
                 (\<lambda>_. emit (ConsoleLog ''Device token sent to backend'')))
              (\<lambda>error. emit (ConsoleError ''Failed to send token to backend:'')))"


definition setupAndroidChannel :: "env \<Rightarrow> unit js" where
  "setupAndroidChannel e = await SetNotificationChannelAsync (setNotificationChannelAsync e)"

definition registerForPushNotifications :: "env \<Rightarrow> string option js" where
  "registerForPushNotifications e =
     (if \<not> isDevice e then
        bindJ (emit (ConsoleLog ''Push notifications only work on physical devices''))
          (\<lambda>_. returnJ None)
      else if isRunningInExpoGo e then
        bindJ (emit (ConsoleLog
          ''Expo Go detected. Remote push notifications are disabled in Expo Go; use a development build to test push notifications.''))
          (\<lambda>_. returnJ None)
      else
        tryCatch
          (bindJ (await GetPermissionsAsync (getPermissionsAsync e)) (\<lambda>existingStatus.
           bindJ (if existingStatus \<noteq> ''granted''
                  then await RequestPermissionsAsync (requestPermissionsAsync e)
                  else returnJ existingStatus) (\<lambda>finalStatus.
           if finalStatus \<noteq> ''granted'' then
             bindJ (emit (ConsoleLog ''Permission to send push notifications denied''))
               (\<lambda>_. returnJ None)
           else if \<not> truthy (resolveProjectId e) then
             bindJ (emit (ConsoleWarn
               ''No EAS project ID found. Set it in app config (expo.extra.eas.projectId or EXPO_PROJECT_ID) to enable remote push notifications.''))
               (\<lambda>_. returnJ None)
           else
             bindJ (await GetDevicePushTokenAsync (getDevicePushTokenAsync e)) (\<lambda>tokenData.
             bindJ (set_expoPushToken (Some tokenData)) (\<lambda>_.
             bindJ getExpoPushToken (\<lambda>stored.
             bindJ (case stored of
                      None \<Rightarrow> returnJ ()
                    | Some t \<Rightarrow>
                        if t = [] then returnJ ()
                        else bindJ (emit (ConsoleLog ''Native Push Token:''))
                               (\<lambda>_. sendTokenToBackend e t)) (\<lambda>_.
             bindJ (if platformOS e = ''android'' then setupAndroidChannel e else returnJ ()) (\<lambda>_.
             bindJ (emit (ConsoleLog ''Expo Push Token:'')) (\<lambda>_.
             getExpoPushToken)))))))))
          (\<lambda>error.
             bindJ (emit (ConsoleError ''Error getting push notification token:''))
               (\<lambda>_. returnJ None)))"


definition sendLocalNotification :: "env \<Rightarrow> notification_data \<Rightarrow> unit js" where
  "sendLocalNotification e notificationData =
     tryCatch
       (await
          (ScheduleNotificationAsync
             (JObj [(''title'', JStr (nd_title notificationData)),
                    (''body'', JStr (nd_body notificationData)),
                    (''data'', data_or_empty (nd_data notificationData)),
                    (''sound'', JStr ''default'')]))
          (scheduleNotificationAsync e))
       (\<lambda>error. emit (ConsoleError ''Error sending local notification:''))"


text \<open>
  \<^verbatim>\<open>new Error(responseData.error || 'Failed to request backend notification')\<close>: reading
  \<^verbatim>\<open>error\<close> off a \<^verbatim>\<open>null\<close> body raises, a falsy or absent \<^verbatim>\<open>error\<close> gives the generic
  text, and any other value becomes the message through \<^verbatim>\<open>String\<close>.
\<close>

definition backend_error :: "env \<Rightarrow> json \<Rightarrow> thrown" where
  "backend_error e responseData =
     (if responseData = JNull then TypeError (typeErrorMessage e PropertyOfNull)
      else
        (case get_prop responseData ''error'' of
           None \<Rightarrow> Error ''Failed to request backend notification''
         | Some v \<Rightarrow>
             if js_truthy v then
               (case js_String (typeErrorMessage e) v of Inl t \<Rightarrow> t | Inr m \<Rightarrow> Error m)
             else Error ''Failed to request backend notification''))"

definition sendPushNotificationViaBackend :: "env \<Rightarrow> notification_data \<Rightarrow> unit js" where
  "sendPushNotificationViaBackend e notificationData =
     bindJ getExpoPushToken (\<lambda>token.
     if \<not> truthy token then emit (ConsoleLog ''No push token available to send to backend'')
     else
       (case getBackendBaseUrl e of
          None \<Rightarrow> emit (ConsoleWarn ''No backend URL configured; cannot request backend notification.'')
        | Some backendUrl \<Rightarrow>
            if backendUrl = [] then
              emit (ConsoleWarn ''No backend URL configured; cannot request backend notification.'')
            else
              tryCatch
                (bindJ (await
                          (Fetch (backendUrl @ ''/send-notification'')
                             (JObj [(''token'', json_of_token token),
                                    (''title'', JStr (nd_title notificationData)),
                                    (''body'', JStr (nd_body notificationData)),
                                    (''data'', data_or_empty (nd_data notificationData))]))
                          (fetch e))
                   (\<lambda>response.
                 bindJ (liftE (json_body response)) (\<lambda>responseData.
                 if \<not> ok response then throwJ (backend_error e responseData)
                 else emit (ConsoleLog ''Successfully requested backend to send notification:''))))
                (\<lambda>error.
                   bindJ (emit (ConsoleError ''Error requesting backend to send notification:''))
                     (\<lambda>_. throwJ error))))"






section \<open>WebViewBridge.tsx\<close>

text \<open>
  The state of the \<^verbatim>\<open>WebViewBridge\<close> component: whether \<^verbatim>\<open>webViewRef.current\<close> holds the
  web view, and the three \<^verbatim>\<open>useState\<close> cells.
\<close>

record web_view_bridge =
  webViewRef :: bool
  isLoading :: bool
  isWebReady :: bool
  loadError :: "string option"

definition postToWeb :: "web_view_bridge \<Rightarrow> bridge_response \<Rightarrow> unit js" where
  "postToWeb w m = (if webViewRef w then emit (PostMessage m) else returnJ ())"

text \<open>\<^verbatim>\<open>typeof x === 'string' ? x : String(x ?? '')\<close>.\<close>

fun string_or_String :: "(type_error \<Rightarrow> string) \<Rightarrow> json option \<Rightarrow> thrown + string" where
  "string_or_String te None = Inr []"
| "string_or_String te (Some JNull) = Inr []"
| "string_or_String te (Some (JStr s)) = Inr s"
| "string_or_String te (Some v) = js_String te v"

text \<open>\<^verbatim>\<open>typeof data === 'object' && data !== null ? data : undefined\<close>.\<close>

definition object_or_undefined :: "json option \<Rightarrow> json option" where
  "object_or_undefined d = (if is_object d then d else None)"

definition toNotificationData :: "(type_error \<Rightarrow> string) \<Rightarrow> json option \<Rightarrow> thrown + notification_data" where
  "toNotificationData te payload =
     (case payload of
        None \<Rightarrow> Inl (Error ''Invalid notification payload received from web app'')
      | Some p \<Rightarrow>
          if is_object payload \<and> has_property ''title'' p \<and> has_property ''body'' p then
            (case string_or_String te (get_prop p ''title'') of
               Inl x \<Rightarrow> Inl x
             | Inr t \<Rightarrow>
                 (case string_or_String te (get_prop p ''body'') of
                    Inl x \<Rightarrow> Inl x
                  | Inr b \<Rightarrow>
                      Inr \<lparr>nd_title = t, nd_body = b,
                           nd_data = object_or_undefined (get_prop p ''data'')\<rparr>))
          else Inl (Error ''Invalid notification payload received from web app''))"

definition withRequestGuard ::
  "web_view_bridge \<Rightarrow> unit js \<Rightarrow> string option \<Rightarrow> string option \<Rightarrow> unit js" where
  "withRequestGuard w handler requestId errorContext =
     tryCatch handler
       (\<lambda>error.
          bindJ (emit (ConsoleError ''Bridge request failed:'')) (\<lambda>_.
          postToWeb w
            \<lparr>msg_type = ''ERROR'',
             msg_requestId = map_option JStr requestId,
             msg_payload =
               Some (JObj (case errorContext of None \<Rightarrow> [] | Some c \<Rightarrow> [(''context'', JStr c)])),
             msg_error =
               Some (if instanceof_Error error then message error
                     else ''Unexpected native error'')\<rparr>))"

definition parsedRequestId :: "env \<Rightarrow> string \<Rightarrow> string option" where
  "parsedRequestId e raw =
     (case JSON_parse e raw of
        None \<Rightarrow> None
      | Some parsed \<Rightarrow>
          if parsed = JNull then None
          else (case get_prop parsed ''requestId'' of Some (JStr r) \<Rightarrow> Some r | _ \<Rightarrow> None))"

text \<open>\<^verbatim>\<open>String(type)\<close> in the message of the default case; the type may be \<^verbatim>\<open>undefined\<close>.\<close>

fun String_of_type :: "(type_error \<Rightarrow> string) \<Rightarrow> json option \<Rightarrow> thrown + string" where
  "String_of_type te None = Inr ''undefined''"
| "String_of_type te (Some v) = js_String te v"

text \<open>The function \<^verbatim>\<open>handleBridgeRequest\<close> hands to \<^verbatim>\<open>withRequestGuard\<close>.\<close>

definition bridgeRequest :: "env \<Rightarrow> web_view_bridge \<Rightarrow> string \<Rightarrow> unit js" where
  "bridgeRequest e w data =
     (case JSON_parse e data of
        None \<Rightarrow> throwJ (Error ''Unable to parse bridge payload from web view'')
      | Some parsed \<Rightarrow>
          if parsed = JNull then throwJ (TypeError (typeErrorMessage e DestructureNull))
          else if get_prop parsed ''type'' = Some (JStr ''REQUEST_PUSH_TOKEN'') then
            bindJ getExpoPushToken (\<lambda>currentToken.
            bindJ (case currentToken of
                     None \<Rightarrow> registerForPushNotifications e
                   | Some t \<Rightarrow> returnJ (Some t)) (\<lambda>token.
            postToWeb w
              \<lparr>msg_type = ''PUSH_TOKEN'',
               msg_requestId = get_prop parsed ''requestId'',
               msg_payload = Some (JObj [(''token'', json_of_token token)]),
               msg_error = None\<rparr>))
          else if get_prop parsed ''type'' = Some (JStr ''SEND_PUSH_VIA_BACKEND'') then
            bindJ (liftE (toNotificationData (typeErrorMessage e) (get_prop parsed ''payload'')))
              (\<lambda>notificationData.
            bindJ (sendPushNotificationViaBackend e notificationData) (\<lambda>_.
            postToWeb w
              \<lparr>msg_type = ''SUCCESS'',
               msg_requestId = get_prop parsed ''requestId'',
               msg_payload = Some (JObj [(''action'', JStr ''SEND_PUSH_VIA_BACKEND'')]),
               msg_error = None\<rparr>))
          else if get_prop parsed ''type'' = Some (JStr ''SEND_LOCAL_NOTIFICATION'') then
            bindJ (liftE (toNotificationData (typeErrorMessage e) (get_prop parsed ''payload'')))
              (\<lambda>notificationData.
            bindJ (sendLocalNotification e notificationData) (\<lambda>_.
            postToWeb w
              \<lparr>msg_type = ''SUCCESS'',
               msg_requestId = get_prop parsed ''requestId'',
               msg_payload = Some (JObj [(''action'', JStr ''SEND_LOCAL_NOTIFICATION'')]),
               msg_error = None\<rparr>))
          else
            bindJ (liftE (String_of_type (typeErrorMessage e) (get_prop parsed ''type'')))
              (\<lambda>t. throwJ (Error (''Unknown bridge request type: '' @ t))))"

definition handleBridgeRequest :: "env \<Rightarrow> web_view_bridge \<Rightarrow> string \<Rightarrow> unit js" where
  "handleBridgeRequest e w data =
     withRequestGuard w (bridgeRequest e w data) (parsedRequestId e data)
       (Some ''handleBridgeRequest'')"

text \<open>The body of the effect with dependencies \<^verbatim>\<open>[isWebReady, postToWeb]\<close>.\<close>

definition readinessEffect :: "web_view_bridge \<Rightarrow> unit js" where
  "readinessEffect w =
     (if \<not> isWebReady w then returnJ ()
      else
        bindJ getExpoPushToken (\<lambda>existingToken.
        if truthy existingToken then
          postToWeb w
            \<lparr>msg_type = ''PUSH_TOKEN'',
             msg_requestId = None,
             msg_payload = Some (JObj [(''token'', json_of_token existingToken)]),
             msg_error = None\<rparr>
        else returnJ ()))"

definition handleLoadEnd :: "web_view_bridge \<Rightarrow> web_view_bridge" where
  "handleLoadEnd w = w\<lparr>isLoading := False, isWebReady := True, loadError := None\<rparr>"

text \<open>
  React runs the effect after the first render, and after a later render only when a
  dependency differs from the previous render; \<^verbatim>\<open>postToWeb\<close> is memoised with no
  dependencies and never differs.
\<close>

definition firstRender :: "web_view_bridge \<Rightarrow> unit js" where
  "firstRender w = readinessEffect w"

definition rerender :: "web_view_bridge \<Rightarrow> web_view_bridge \<Rightarrow> unit js" where
  "rerender before w = (if isWebReady before \<noteq> isWebReady w then readinessEffect w else returnJ ())"

text \<open>The web view reports the end of a load: the handler runs, then the component renders.\<close>

definition onLoadEnd ::
  "web_view_bridge \<Rightarrow> notification_service \<Rightarrow> web_view_bridge \<times> effect list" where
  "onLoadEnd w s = (handleLoadEnd w, trace (rerender w (handleLoadEnd w) s))"

fun onLoadEnds :: "nat \<Rightarrow> web_view_bridge \<Rightarrow> notification_service \<Rightarrow> effect list" where
  "onLoadEnds 0 w s = []"
| "onLoadEnds (Suc n) w s = snd (onLoadEnd w s) @ onLoadEnds n (fst (onLoadEnd w s)) s"

text \<open>The component as \<^verbatim>\<open>useState\<close> initialises it, the web view mounted.\<close>

definition initial_bridge :: web_view_bridge where
  "initial_bridge = \<lparr>webViewRef = True, isLoading = True, isWebReady = False, loadError = None\<rparr>"

section \<open>Reading a trace\<close>

text \<open>The messages posted to the embedded content, the HTTP requests, and the calls into
  the operating system, each in order.\<close>

fun posted :: "effect list \<Rightarrow> bridge_response list" where
  "posted [] = []"
| "posted (PostMessage m # tr) = m # posted tr"
| "posted (a # tr) = posted tr"

fun fetches :: "effect list \<Rightarrow> (string \<times> json) list" where
  "fetches [] = []"
| "fetches (Fetch url body # tr) = (url, body) # fetches tr"
| "fetches (a # tr) = fetches tr"

fun is_os_call :: "effect \<Rightarrow> bool" where
  "is_os_call GetPermissionsAsync = True"
| "is_os_call RequestPermissionsAsync = True"
| "is_os_call GetDevicePushTokenAsync = True"
| "is_os_call SetNotificationChannelAsync = True"
| "is_os_call (ScheduleNotificationAsync c) = True"
| "is_os_call SetNotificationHandler = True"
| "is_os_call AddNotificationReceivedListener = True"
| "is_os_call AddNotificationResponseReceivedListener = True"
| "is_os_call RemoveSubscription = True"
| "is_os_call _ = False"

definition os_calls :: "effect list \<Rightarrow> effect list" where
  "os_calls tr = filter is_os_call tr"

section \<open>Sample surroundings\<close>

text \<open>
  The bridge messages used in the examples below, with what \<^verbatim>\<open>JSON.parse\<close> makes of them;
  any other text stands for one that does not parse.
\<close>

definition request_token_text :: string where
  \<open>request_token_text = ''{"type":"REQUEST_PUSH_TOKEN","requestId":"r1"}''\<close>

definition request_token_json :: json where
  "request_token_json =
     JObj [(''type'', JStr ''REQUEST_PUSH_TOKEN''), (''requestId'', JStr ''r1'')]"

definition send_backend_text :: string where
  \<open>send_backend_text =
     ''{"type":"SEND_PUSH_VIA_BACKEND","requestId":"r2","payload":{"title":"T","body":"B"}}''\<close>

definition send_backend_json :: json where
  "send_backend_json =
     JObj [(''type'', JStr ''SEND_PUSH_VIA_BACKEND''), (''requestId'', JStr ''r2''),
           (''payload'', JObj [(''title'', JStr ''T''), (''body'', JStr ''B'')])]"

definition send_local_text :: string where
  \<open>send_local_text =
     ''{"type":"SEND_LOCAL_NOTIFICATION","requestId":"r3","payload":{"title":"T"}}''\<close>

definition send_local_json :: json where
  "send_local_json =
     JObj [(''type'', JStr ''SEND_LOCAL_NOTIFICATION''), (''requestId'', JStr ''r3''),
           (''payload'', JObj [(''title'', JStr ''T'')])]"

definition send_coerced_text :: string where
  \<open>send_coerced_text =
     ''{"type":"SEND_LOCAL_NOTIFICATION","requestId":"r5","payload":{"title":5,"body":null}}''\<close>

definition send_coerced_json :: json where
  "send_coerced_json =
     JObj [(''type'', JStr ''SEND_LOCAL_NOTIFICATION''), (''requestId'', JStr ''r5''),
           (''payload'', JObj [(''title'', JNum ''5''), (''body'', JNull)])]"

definition send_toString_text :: string where
  \<open>send_toString_text =
     ''{"type":"SEND_LOCAL_NOTIFICATION","requestId":"r6","payload":{"title":{"toString":1},"body":"B"}}''\<close>

definition send_toString_json :: json where
  "send_toString_json =
     JObj [(''type'', JStr ''SEND_LOCAL_NOTIFICATION''), (''requestId'', JStr ''r6''),
           (''payload'', JObj [(''title'', JObj [(''toString'', JNum ''1'')]),
                              (''body'', JStr ''B'')])]"

definition unknown_type_text :: string where
  \<open>unknown_type_text = ''{"type":"FOO","requestId":"r4"}''\<close>

definition unknown_type_json :: json where
  "unknown_type_json = JObj [(''type'', JStr ''FOO''), (''requestId'', JStr ''r4'')]"

definition sample_parse :: "string \<Rightarrow> json option" where
  "sample_parse raw =
     (if raw = request_token_text then Some request_token_json
      else if raw = send_backend_text then Some send_backend_json
      else if raw = send_local_text then Some send_local_json
      else if raw = send_coerced_text then Some send_coerced_json
      else if raw = send_toString_text then Some send_toString_json
      else if raw = unknown_type_text then Some unknown_type_json
      else None)"

text \<open>
  A physical Android device running a development build: notifications are permitted, a
  project id is configured, the operating system issues the token \<open>''fcm-token-1''\<close> and
  the backend answers 200 with a JSON body.
\<close>

definition device_env :: env where
  "device_env =
     \<lparr>isDevice = True,
      executionEnvironment = Some ''bare'',
      appOwnership = None,
      extra_eas_projectId = Some ''project-1'',
      easConfig_projectId = None,
      EXPO_PROJECT_ID = None,
      extra_backendUrl = None,
      EXPO_PUBLIC_BACKEND_URL = None,
      platformOS = ''android'',
      getPermissionsAsync = Inr ''granted'',
      requestPermissionsAsync = Inr ''granted'',
      getDevicePushTokenAsync = Inr ''fcm-token-1'',
      setNotificationChannelAsync = Inr (),
      scheduleNotificationAsync = Inr (),
      fetch = Inr \<lparr>ok = True, json_body = Inr (JObj [(''success'', JBool True)])\<rparr>,
      JSON_parse = sample_parse,
      typeErrorMessage = (\<lambda>k. ''TypeError'')\<rparr>"


text \<open>The same device when the backend answers 200 with a body that is not JSON.\<close>

definition plain_text_env :: env where
  "plain_text_env =
     device_env\<lparr>fetch := Inr \<lparr>ok = True, json_body = Inl (SyntaxError ''JSON Parse error'')\<rparr>\<rparr>"

text \<open>The same device when the backend answers 500 with \<^verbatim>\<open>{"error":"quota exceeded"}\<close>.\<close>

definition failing_backend_env :: env where
  "failing_backend_env =
     device_env\<lparr>fetch := Inr \<lparr>ok = False,
                                 json_body = Inr (JObj [(''error'', JStr ''quota exceeded'')])\<rparr>\<rparr>"

text \<open>The same device when the user refuses the permission.\<close>

definition denied_env :: env where
  "denied_env =
     device_env\<lparr>getPermissionsAsync := Inr ''undetermined'',
                 requestPermissionsAsync := Inr ''denied''\<rparr>"

text \<open>The same device when the operating system fails to issue a token.\<close>

definition no_token_env :: env where
  "no_token_env =
     device_env\<lparr>getDevicePushTokenAsync := Inl (Error ''Fetching the token failed'')\<rparr>"

text \<open>An emulator.\<close>

definition emulator_env :: env where
  "emulator_env = device_env\<lparr>isDevice := False\<rparr>"

definition registered :: notification_service where
  "registered = \<lparr>expoPushToken = Some ''fcm-token-1''\<rparr>"

definition unregistered :: notification_service where
  "unregistered = \<lparr>expoPushToken = None\<rparr>"



section \<open>Running the pieces\<close>

lemmas js_defs = bindJ_def tryCatch_def emit_def await_def returnJ_def throwJ_def liftE_def
  getExpoPushToken_def set_expoPushToken_def

lemmas run_defs = outcome_def state_after_def trace_def

lemmas sample_defs = device_env_def sample_parse_def initial_bridge_def unregistered_def
  registered_def request_token_text_def request_token_json_def send_backend_text_def
  send_backend_json_def send_local_text_def send_local_json_def unknown_type_text_def
  unknown_type_json_def send_coerced_text_def send_coerced_json_def send_toString_text_def
  send_toString_json_def

lemma posted_append: "posted (xs @ ys) = posted xs @ posted ys"
  by (induction xs rule: posted.induct) auto

lemma fetches_append: "fetches (xs @ ys) = fetches xs @ fetches ys"
  by (induction xs rule: fetches.induct) auto

lemma getBackendBaseUrl_Some: "\<exists>u. getBackendBaseUrl e = Some u \<and> u \<noteq> []"
  by (auto simp add: getBackendBaseUrl_def js_or_def split: option.splits elim: truthy.elims)

lemma sendTokenToBackend_run:
  "\<exists>tr. sendTokenToBackend e t s = (Inr (), s, tr) \<and> posted tr = [] \<and> length (fetches tr) = 1
     \<and> ConsoleWarn ''No backend URL configured; skipping device token registration.'' \<notin> set tr"
proof -
  obtain u where u: "getBackendBaseUrl e = Some u" "u \<noteq> []"
    using getBackendBaseUrl_Some by blast
  show ?thesis
    by (cases "fetch e") (simp_all add: sendTokenToBackend_def u js_defs)
qed

lemma register_run:
  "\<exists>r s' tr. registerForPushNotifications e s = (Inr r, s', tr) \<and> posted tr = []
     \<and> (s' = s \<and> r = None \<or> (\<exists>tok. getDevicePushTokenAsync e = Inr tok \<and> s' = s\<lparr>expoPushToken := Some tok\<rparr>))"
proof -
  obtain tr0 where t: "\<And>t s. sendTokenToBackend e t s = (Inr (), s, tr0 t s) \<and> posted (tr0 t s) = []"
    using sendTokenToBackend_run by metis
  show ?thesis
  by (simp add: registerForPushNotifications_def t setupAndroidChannel_def js_defs posted_append split: option.splits sum.splits prod.splits)
qed


lemma sendLocalNotification_run:
  "\<exists>tr. sendLocalNotification e n s = (Inr (), s, tr) \<and> posted tr = [] \<and> fetches tr = []"
  by (cases "scheduleNotificationAsync e") (simp_all add: sendLocalNotification_def js_defs)

lemma sendPushNotificationViaBackend_run:
  "\<exists>r tr. sendPushNotificationViaBackend e n s = (r, s, tr) \<and> posted tr = []"
proof -
  obtain u where u: "getBackendBaseUrl e = Some u" "u \<noteq> []"
    using getBackendBaseUrl_Some by blast
  show ?thesis
    by (simp add: sendPushNotificationViaBackend_def u js_defs posted_append
        split: sum.splits)
qed

lemma sendPushNotificationViaBackend_no_token:
  "\<not> truthy (expoPushToken s) \<Longrightarrow>
   sendPushNotificationViaBackend e n s =
     (Inr (), s, [ConsoleLog ''No push token available to send to backend''])"
  by (simp add: sendPushNotificationViaBackend_def js_defs)

lemma bridgeRequest_throws:
  assumes "bridgeRequest e w data s = (Inl x, s', tr)"
  shows "posted tr = []"
proof -
  obtain rr rs rt where r: "registerForPushNotifications e s = (Inr rr, rs, rt)" "posted rt = []"
    using register_run by blast
  define lt where "lt = (\<lambda>n. snd (snd (sendLocalNotification e n s)))"
  have l: "sendLocalNotification e n s = (Inr (), s, lt n) \<and> posted (lt n) = []" for n
    using sendLocalNotification_run [of e n s] by (auto simp add: lt_def)
  define br where "br = (\<lambda>n. fst (sendPushNotificationViaBackend e n s))"
  define bt where "bt = (\<lambda>n. snd (snd (sendPushNotificationViaBackend e n s)))"
  have b: "sendPushNotificationViaBackend e n s = (br n, s, bt n) \<and> posted (bt n) = []" for n
    using sendPushNotificationViaBackend_run [of e n s] by (auto simp add: br_def bt_def)
  show ?thesis
    using assms
    by (auto simp add: bridgeRequest_def postToWeb_def r l b js_defs posted_append
        split: option.splits sum.splits if_splits)
qed

lemma bridgeRequest_returns:
  assumes "webViewRef w" "bridgeRequest e w data s = (Inr u, s', tr)"
  shows "\<exists>parsed m. JSON_parse e data = Some parsed \<and> posted tr = [m]
           \<and> msg_requestId m = get_prop parsed ''requestId''
           \<and> (msg_type m = ''PUSH_TOKEN'' \<or> msg_type m = ''SUCCESS'')"
proof -
  obtain rr rs rt where r: "registerForPushNotifications e s = (Inr rr, rs, rt)" "posted rt = []"
    using register_run by blast
  define lt where "lt = (\<lambda>n. snd (snd (sendLocalNotification e n s)))"
  have l: "sendLocalNotification e n s = (Inr (), s, lt n) \<and> posted (lt n) = []" for n
    using sendLocalNotification_run [of e n s] by (auto simp add: lt_def)
  define br where "br = (\<lambda>n. fst (sendPushNotificationViaBackend e n s))"
  define bt where "bt = (\<lambda>n. snd (snd (sendPushNotificationViaBackend e n s)))"
  have b: "sendPushNotificationViaBackend e n s = (br n, s, bt n) \<and> posted (bt n) = []" for n
    using sendPushNotificationViaBackend_run [of e n s] by (auto simp add: br_def bt_def)
  show ?thesis
    using assms
    by (auto simp add: bridgeRequest_def postToWeb_def r l b js_defs posted_append
        split: option.splits sum.splits if_splits)
qed

section \<open>Request and response correlation\<close>

text \<open>
  C1. A bridge message whose text parses to a JSON object with a string \<^verbatim>\<open>requestId\<close> is
  answered by exactly one response, and that response carries the same \<^verbatim>\<open>requestId\<close>:
  a \<^verbatim>\<open>PUSH_TOKEN\<close> or \<^verbatim>\<open>SUCCESS\<close> response when the dispatch succeeds, an \<^verbatim>\<open>ERROR\<close>
  response, with the id recovered by \<^verbatim>\<open>parsedRequestId\<close>, when it fails for any reason,
  a missing or unknown \<^verbatim>\<open>type\<close> included. The handler itself returns normally. The
  message arrives through the mounted web view, which is where the response is posted.
\<close>

theorem handleBridgeRequest_one_response:
  assumes "webViewRef w"
    and "JSON_parse e data = Some (JObj props)"
    and "map_of props ''requestId'' = Some (JStr rid)"
  shows "\<exists>m. posted (trace (handleBridgeRequest e w data s)) = [m]
           \<and> msg_requestId m = Some (JStr rid)
           \<and> (msg_type m = ''PUSH_TOKEN'' \<or> msg_type m = ''SUCCESS'' \<or> msg_type m = ''ERROR'')
           \<and> outcome (handleBridgeRequest e w data s) = Inr ()"
proof -
  obtain r s' tr where run: "bridgeRequest e w data s = (r, s', tr)"
    by (metis prod_cases3)
  have pid: "parsedRequestId e data = Some rid"
    using assms by (simp add: parsedRequestId_def)
  show ?thesis
  proof (cases r)
    case (Inl x)
    with run have "posted tr = []"
      using bridgeRequest_throws by blast
    with Inl run pid assms(1) show ?thesis
      by (simp add: handleBridgeRequest_def withRequestGuard_def postToWeb_def js_defs
          run_defs posted_append)
  next
    case (Inr u)
    with run assms obtain m where "posted tr = [m]" "msg_requestId m = Some (JStr rid)"
      "msg_type m = ''PUSH_TOKEN'' \<or> msg_type m = ''SUCCESS''"
      using bridgeRequest_returns by fastforce
    with Inr run show ?thesis
      by (auto simp add: handleBridgeRequest_def withRequestGuard_def js_defs run_defs)
  qed
qed


theorem handleBridgeRequest_one_response_witness:
  "webViewRef initial_bridge
   \<and> JSON_parse device_env unknown_type_text
       = Some (JObj [(''type'', JStr ''FOO''), (''requestId'', JStr ''r4'')])
   \<and> map_of [(''type'', JStr ''FOO''), (''requestId'', JStr ''r4'')] ''requestId''
       = Some (JStr ''r4'')
   \<and> (\<exists>m. posted (trace (handleBridgeRequest device_env initial_bridge unknown_type_text
                unregistered)) = [m]
          \<and> msg_requestId m = Some (JStr ''r4'')
          \<and> (msg_type m = ''PUSH_TOKEN'' \<or> msg_type m = ''SUCCESS'' \<or> msg_type m = ''ERROR'')
          \<and> outcome (handleBridgeRequest device_env initial_bridge unknown_type_text
                unregistered) = Inr ())"
  using handleBridgeRequest_one_response
    [of initial_bridge device_env unknown_type_text
        "[(''type'', JStr ''FOO''), (''requestId'', JStr ''r4'')]" "''r4''" unregistered]
  by (simp add: sample_defs)


section \<open>The dispatch boundary\<close>

lemma withRequestGuard_run:
  assumes "h s = (r, s', tr)"
  shows "withRequestGuard w h rid ctx s =
     (Inr (), s',
      tr @ (case r of
              Inr u \<Rightarrow> []
            | Inl x \<Rightarrow>
                ConsoleError ''Bridge request failed:'' #
                (if webViewRef w then
                   [PostMessage
                      \<lparr>msg_type = ''ERROR'',
                       msg_requestId = map_option JStr rid,
                       msg_payload =
                         Some (JObj (case ctx of None \<Rightarrow> [] | Some c \<Rightarrow> [(''context'', JStr c)])),
                       msg_error =
                         Some (if instanceof_Error x then message x
                               else ''Unexpected native error'')\<rparr>]
                 else [])))"
  using assms
  by (cases r) (simp_all add: withRequestGuard_def postToWeb_def js_defs)

text \<open>
  C3. \<^verbatim>\<open>handleBridgeRequest\<close>, and \<^verbatim>\<open>withRequestGuard\<close> around any handler, return
  normally whatever happens inside. When the guarded function raises \<open>x\<close>, the single
  message posted is an \<^verbatim>\<open>ERROR\<close> response: its \<^verbatim>\<open>error\<close> is the message of \<open>x\<close> (the
  fixed text \<^verbatim>\<open>Unexpected native error\<close> when \<open>x\<close> is not an \<^verbatim>\<open>Error\<close>), its
  \<^verbatim>\<open>payload.context\<close> is \<^verbatim>\<open>handleBridgeRequest\<close> and its \<^verbatim>\<open>requestId\<close> is the recovered
  one. A text that is not JSON is such a case, with the error
  \<^verbatim>\<open>Unable to parse bridge payload from web view\<close>.
\<close>

theorem withRequestGuard_catches:
  "outcome (handleBridgeRequest e w data s) = Inr ()
   \<and> outcome (withRequestGuard w h rid ctx s) = Inr ()
   \<and> (webViewRef w \<longrightarrow> outcome (bridgeRequest e w data s) = Inl x \<longrightarrow>
        posted (trace (handleBridgeRequest e w data s)) =
          [\<lparr>msg_type = ''ERROR'',
            msg_requestId = map_option JStr (parsedRequestId e data),
            msg_payload = Some (JObj [(''context'', JStr ''handleBridgeRequest'')]),
            msg_error = Some (if instanceof_Error x then message x
                              else ''Unexpected native error'')\<rparr>])
   \<and> (webViewRef w \<longrightarrow> JSON_parse e data = None \<longrightarrow>
        posted (trace (handleBridgeRequest e w data s)) =
          [\<lparr>msg_type = ''ERROR'',
            msg_requestId = None,
            msg_payload = Some (JObj [(''context'', JStr ''handleBridgeRequest'')]),
            msg_error = Some ''Unable to parse bridge payload from web view''\<rparr>])"
proof -
  obtain r s' tr where run: "bridgeRequest e w data s = (r, s', tr)"
    by (metis prod_cases3)
  obtain r2 s2 tr2 where run2: "h s = (r2, s2, tr2)"
    by (metis prod_cases3)
  have thrown: "posted tr = []" if "r = Inl x" for x
    using that run bridgeRequest_throws by blast
  have a: "outcome (handleBridgeRequest e w data s) = Inr ()"
    by (simp add: handleBridgeRequest_def withRequestGuard_run [where h = "bridgeRequest e w data", OF run] run_defs)
  have b: "outcome (withRequestGuard w h rid ctx s) = Inr ()"
    by (simp add: withRequestGuard_run [where h = h, OF run2] run_defs)
  have c: "posted (trace (handleBridgeRequest e w data s)) =
          [\<lparr>msg_type = ''ERROR'',
            msg_requestId = map_option JStr (parsedRequestId e data),
            msg_payload = Some (JObj [(''context'', JStr ''handleBridgeRequest'')]),
            msg_error = Some (if instanceof_Error x then message x
                              else ''Unexpected native error'')\<rparr>]"
    if "webViewRef w" "outcome (bridgeRequest e w data s) = Inl x"
    using that run thrown
    by (simp add: handleBridgeRequest_def withRequestGuard_run [where h = "bridgeRequest e w data", OF run] run_defs posted_append)
  have d: "posted (trace (handleBridgeRequest e w data s)) =
          [\<lparr>msg_type = ''ERROR'',
            msg_requestId = None,
            msg_payload = Some (JObj [(''context'', JStr ''handleBridgeRequest'')]),
            msg_error = Some ''Unable to parse bridge payload from web view''\<rparr>]"
    if "webViewRef w" "JSON_parse e data = None"
  proof -
    have "bridgeRequest e w data s = (Inl (Error ''Unable to parse bridge payload from web view''), s, [])"
      using that by (simp add: bridgeRequest_def js_defs)
    then show ?thesis
      using that
      by (simp add: handleBridgeRequest_def parsedRequestId_def run_defs
          withRequestGuard_run [where h = "bridgeRequest e w data"])
  qed
  from a b c d show ?thesis by blast
qed

theorem withRequestGuard_catches_witness:
  \<open>webViewRef initial_bridge
   \<and> JSON_parse device_env ''not json'' = None
   \<and> outcome (bridgeRequest device_env initial_bridge ''not json'' unregistered)
       = Inl (Error ''Unable to parse bridge payload from web view'')
   \<and> outcome (handleBridgeRequest device_env initial_bridge ''not json'' unregistered) = Inr ()
   \<and> posted (trace (handleBridgeRequest device_env initial_bridge ''not json'' unregistered)) =
        [\<lparr>msg_type = ''ERROR'',
          msg_requestId = None,
          msg_payload = Some (JObj [(''context'', JStr ''handleBridgeRequest'')]),
          msg_error = Some ''Unable to parse bridge payload from web view''\<rparr>]\<close>
proof -
  have p: "JSON_parse device_env ''not json'' = None"
    by (simp add: sample_defs)
  have r: "webViewRef initial_bridge"
    by (simp add: sample_defs)
  have o: "outcome (bridgeRequest device_env initial_bridge ''not json'' unregistered)
       = Inl (Error ''Unable to parse bridge payload from web view'')"
    by (simp add: bridgeRequest_def p js_defs run_defs)
  show ?thesis
    using withRequestGuard_catches
      [where e = device_env and w = initial_bridge and data = "''not json''"
         and s = unregistered and h = "returnJ ()" and rid = None and ctx = None
         and x = "Error ''Unable to parse bridge payload from web view''"] p r o
    by (simp add: parsedRequestId_def)
qed


section \<open>Validation of the notification payload\<close>

lemma toNotificationData_invalid:
  assumes "\<not> (\<exists>props. payload = Some (JObj props) \<and> map_of props ''title'' \<noteq> None
                 \<and> map_of props ''body'' \<noteq> None)"
  shows "toNotificationData te payload =
           Inl (Error ''Invalid notification payload received from web app'')"
proof (cases payload)
  case None
  then show ?thesis by (simp add: toNotificationData_def)
next
  case (Some p)
  with assms show ?thesis
    by (cases p) (auto simp add: toNotificationData_def)
qed

lemma string_or_String_error:
  "string_or_String te v = Inl x \<Longrightarrow> \<exists>j. v = Some j \<and> js_String te j = Inl x"
  by (induction te v rule: string_or_String.induct) simp_all

lemma join_comma_error:
  "join_comma rs = Inl x \<Longrightarrow> Inl x \<in> set rs"
  by (induction rs rule: join_comma.induct) (auto split: sum.splits)

lemma js_String_error:
  "js_String te j = Inl x \<Longrightarrow> x = TypeError (te ToPrimitive)"
proof (induction te j rule: js_String.induct)
  case (5 te xs)
  then have "Inl x \<in> set (map (\<lambda>x. if x = JNull then Inr [] else js_String te x) xs)"
    using join_comma_error by fastforce
  then obtain y where "y \<in> set xs" "y \<noteq> JNull" "js_String te y = Inl x"
    by (auto split: if_splits)
  with 5 show ?case by blast
qed (auto split: if_splits)

lemma toNotificationData_valid:
  assumes "map_of props ''title'' = Some t" "map_of props ''body'' = Some b"
  shows "toNotificationData te (Some (JObj props)) =
           (case string_or_String te (Some t) of
              Inl x \<Rightarrow> Inl x
            | Inr t' \<Rightarrow>
                (case string_or_String te (Some b) of
                   Inl x \<Rightarrow> Inl x
                 | Inr b' \<Rightarrow>
                     Inr \<lparr>nd_title = t', nd_body = b',
                          nd_data = object_or_undefined (map_of props ''data'')\<rparr>))"
  using assms by (simp add: toNotificationData_def split: sum.splits)

lemma bridgeRequest_payload_rejected:
  assumes "JSON_parse e data = Some parsed"
    and "get_prop parsed ''type'' = Some (JStr ''SEND_PUSH_VIA_BACKEND'')
         \<or> get_prop parsed ''type'' = Some (JStr ''SEND_LOCAL_NOTIFICATION'')"
    and "toNotificationData (typeErrorMessage e) (get_prop parsed ''payload'') = Inl x"
  shows "bridgeRequest e w data s = (Inl x, s, [])"
proof -
  have "parsed \<noteq> JNull"
    using assms(2) by auto
  with assms show ?thesis
    by (auto simp add: bridgeRequest_def js_defs)
qed

lemma bridgeRequest_send_local:
  assumes "JSON_parse e data = Some parsed"
    and "get_prop parsed ''type'' = Some (JStr ''SEND_LOCAL_NOTIFICATION'')"
    and "toNotificationData (typeErrorMessage e) (get_prop parsed ''payload'') = Inr n"
    and "webViewRef w"
  shows "bridgeRequest e w data s =
     (Inr (), s,
      trace (sendLocalNotification e n s) @
      [PostMessage
         \<lparr>msg_type = ''SUCCESS'',
          msg_requestId = get_prop parsed ''requestId'',
          msg_payload = Some (JObj [(''action'', JStr ''SEND_LOCAL_NOTIFICATION'')]),
          msg_error = None\<rparr>])"
proof -
  have "parsed \<noteq> JNull"
    using assms(2) by auto
  moreover obtain tr where "sendLocalNotification e n s = (Inr (), s, tr)"
    using sendLocalNotification_run by blast
  ultimately show ?thesis
    using assms by (simp add: bridgeRequest_def postToWeb_def js_defs run_defs)
qed

lemma bridgeRequest_send_backend:
  assumes "JSON_parse e data = Some parsed"
    and "get_prop parsed ''type'' = Some (JStr ''SEND_PUSH_VIA_BACKEND'')"
    and "toNotificationData (typeErrorMessage e) (get_prop parsed ''payload'') = Inr n"
    and "webViewRef w"
    and "sendPushNotificationViaBackend e n s = (Inr (), s, tr)"
  shows "bridgeRequest e w data s =
     (Inr (), s,
      tr @
      [PostMessage
         \<lparr>msg_type = ''SUCCESS'',
          msg_requestId = get_prop parsed ''requestId'',
          msg_payload = Some (JObj [(''action'', JStr ''SEND_PUSH_VIA_BACKEND'')]),
          msg_error = None\<rparr>])"
proof -
  have "parsed \<noteq> JNull"
    using assms(2) by auto
  then show ?thesis
    using assms by (simp add: bridgeRequest_def postToWeb_def js_defs run_defs)
qed


lemma sendLocalNotification_trace:
  "os_calls (trace (sendLocalNotification e n s)) =
     [ScheduleNotificationAsync
        (JObj [(''title'', JStr (nd_title n)), (''body'', JStr (nd_body n)),
               (''data'', data_or_empty (nd_data n)), (''sound'', JStr ''default'')])]
   \<and> posted (trace (sendLocalNotification e n s)) = []
   \<and> fetches (trace (sendLocalNotification e n s)) = []"
  by (cases "scheduleNotificationAsync e")
    (simp_all add: sendLocalNotification_def js_defs run_defs os_calls_def)

lemma join_comma_raises_if: "Inl x \<in> set rs \<Longrightarrow> \<exists>y. join_comma rs = Inl y"
proof (induction rs rule: join_comma.induct)
  case 1
  then show ?case by simp
next
  case (2 r)
  then show ?case by auto
next
  case (3 r v va)
  show ?case
  proof (cases r)
    case (Inl a)
    then show ?thesis by simp
  next
    case (Inr s)
    with 3 have "Inl x \<in> set (v # va)"
      by auto
    with 3 Inr obtain y where "join_comma (v # va) = Inl y"
      by blast
    with Inr show ?thesis
      by simp
  qed
qed

lemma join_comma_raises: "(\<exists>x. join_comma rs = Inl x) \<longleftrightarrow> (\<exists>x. Inl x \<in> set rs)"
  using join_comma_error join_comma_raises_if by blast



lemma ex_Inl_image: "(\<exists>x. Inl x \<in> f ` A) \<longleftrightarrow> (\<exists>y \<in> A. \<exists>x. f y = Inl x)"
proof
  assume "\<exists>x. Inl x \<in> f ` A"
  then obtain x where "Inl x \<in> f ` A" ..
  then obtain y where "y \<in> A" "Inl x = f y" ..
  then have "f y = Inl x" by (rule_tac sym)
  with \<open>y \<in> A\<close> show "\<exists>y \<in> A. \<exists>x. f y = Inl x" by (intro bexI exI)
next
  assume "\<exists>y \<in> A. \<exists>x. f y = Inl x"
  then obtain y x where "y \<in> A" "f y = Inl x" by (elim bexE exE)
  then have "Inl x \<in> f ` A" by (metis imageI)
  then show "\<exists>x. Inl x \<in> f ` A" ..
qed

lemma js_String_array_raises:
  "(\<exists>x. js_String te (JArr xs) = Inl x)
     \<longleftrightarrow> (\<exists>y \<in> set xs. \<exists>x. (if y = JNull then Inr [] else js_String te y) = Inl x)"
  by (simp only: js_String.simps join_comma_raises set_map ex_Inl_image)


lemma js_String_raises: "(\<exists>x. js_String te v = Inl x) \<longleftrightarrow> String_raises v"
proof (induction te v rule: js_String.induct)
  case (5 te xs)
  have element: "(\<exists>x. (if y = JNull then Inr [] else js_String te y) = Inl x) \<longleftrightarrow> String_raises y"
    if "y \<in> set xs" for y
  proof (cases "y = JNull")
    case True
    then show ?thesis by simp
  next
    case False
    with that have "(\<exists>x. js_String te y = Inl x) \<longleftrightarrow> String_raises y"
      by (rule "5.IH")
    with False show ?thesis by simp
  qed
  have "(\<exists>x. js_String te (JArr xs) = Inl x)
     \<longleftrightarrow> (\<exists>y \<in> set xs. \<exists>x. (if y = JNull then Inr [] else js_String te y) = Inl x)"
    by (rule js_String_array_raises)
  also have "\<dots> \<longleftrightarrow> (\<exists>y \<in> set xs. String_raises y)"
    using element by (rule bex_cong [OF refl])
  also have "\<dots> \<longleftrightarrow> String_raises (JArr xs)"
    by (simp only: String_raises.simps list_ex_iff)
  finally show ?case .
next
  case (6 te props)
  show ?case by (cases "map_of props ''toString''") simp_all
qed (simp_all only: js_String.simps String_raises.simps sum.distinct simp_thms)


lemma string_or_String_raises:
  "(\<exists>x. string_or_String te (Some v) = Inl x) \<longleftrightarrow> String_raises v"
  using js_String_raises [of te v] by (cases v) simp_all

lemma string_or_String_TypeError:
  assumes "string_or_String te v = Inl x"
  shows "x = TypeError (te ToPrimitive)"
  using assms string_or_String_error js_String_error by blast

lemma toNotificationData_raises:
  assumes "map_of props ''title'' = Some t" "map_of props ''body'' = Some b"
    and "String_raises t \<or> String_raises b"
  shows "toNotificationData te (Some (JObj props)) = Inl (TypeError (te ToPrimitive))"
proof (cases "string_or_String te (Some t)")
  case (Inl x)
  then show ?thesis
    using assms(1,2) string_or_String_TypeError [OF Inl]
    by (simp add: toNotificationData_valid)
next
  case (Inr t')
  then have "\<not> String_raises t"
    using string_or_String_raises [of te t] by auto
  with assms(3) obtain x where x: "string_or_String te (Some b) = Inl x"
    using string_or_String_raises [of te b] by auto
  then show ?thesis
    using assms(1,2) Inr string_or_String_TypeError [OF x]
    by (simp add: toNotificationData_valid)
qed

lemma toNotificationData_converts:
  assumes "map_of props ''title'' = Some t" "map_of props ''body'' = Some b"
    and "\<not> String_raises t" "\<not> String_raises b"
  shows "\<exists>t' b'. string_or_String te (Some t) = Inr t' \<and> string_or_String te (Some b) = Inr b'
           \<and> toNotificationData te (Some (JObj props)) =
               Inr \<lparr>nd_title = t', nd_body = b',
                    nd_data = object_or_undefined (map_of props ''data'')\<rparr>"
proof -
  obtain t' where t': "string_or_String te (Some t) = Inr t'"
    using assms(3) string_or_String_raises [of te t] by (cases "string_or_String te (Some t)") auto
  obtain b' where b': "string_or_String te (Some b) = Inr b'"
    using assms(4) string_or_String_raises [of te b] by (cases "string_or_String te (Some b)") auto
  show ?thesis
    using assms(1,2) t' b' by (simp add: toNotificationData_valid)
qed



lemma bridgeRequest_send_backend_throws:
  assumes "JSON_parse e data = Some parsed"
    and "get_prop parsed ''type'' = Some (JStr ''SEND_PUSH_VIA_BACKEND'')"
    and "toNotificationData (typeErrorMessage e) (get_prop parsed ''payload'') = Inr n"
    and "sendPushNotificationViaBackend e n s = (Inl x, s, tr)"
  shows "bridgeRequest e w data s = (Inl x, s, tr)"
proof -
  have "parsed \<noteq> JNull"
    using assms(2) by auto
  then show ?thesis
    using assms by (simp add: bridgeRequest_def js_defs)
qed

lemma handleBridgeRequest_rejected:
  assumes "webViewRef w"
    and "JSON_parse e data = Some parsed"
    and "get_prop parsed ''type'' = Some (JStr ''SEND_PUSH_VIA_BACKEND'')
         \<or> get_prop parsed ''type'' = Some (JStr ''SEND_LOCAL_NOTIFICATION'')"
    and "toNotificationData (typeErrorMessage e) (get_prop parsed ''payload'') = Inl x"
  shows "trace (handleBridgeRequest e w data s) =
     [ConsoleError ''Bridge request failed:'',
      PostMessage
        \<lparr>msg_type = ''ERROR'',
         msg_requestId = map_option JStr (parsedRequestId e data),
         msg_payload = Some (JObj [(''context'', JStr ''handleBridgeRequest'')]),
         msg_error = Some (if instanceof_Error x then message x
                           else ''Unexpected native error'')\<rparr>]"
proof -
  have "bridgeRequest e w data s = (Inl x, s, [])"
    using assms bridgeRequest_payload_rejected by blast
  then show ?thesis
    using assms(1)
    by (simp add: handleBridgeRequest_def run_defs
        withRequestGuard_run [where h = "bridgeRequest e w data"])
qed

lemma handleBridgeRequest_send_backend:
  assumes "webViewRef w"
    and "JSON_parse e data = Some parsed"
    and "get_prop parsed ''type'' = Some (JStr ''SEND_PUSH_VIA_BACKEND'')"
    and "toNotificationData (typeErrorMessage e) (get_prop parsed ''payload'') = Inr n"
  shows "trace (handleBridgeRequest e w data s) =
     trace (sendPushNotificationViaBackend e n s) @
     (case outcome (sendPushNotificationViaBackend e n s) of
        Inr u \<Rightarrow>
          [PostMessage
             \<lparr>msg_type = ''SUCCESS'',
              msg_requestId = get_prop parsed ''requestId'',
              msg_payload = Some (JObj [(''action'', JStr ''SEND_PUSH_VIA_BACKEND'')]),
              msg_error = None\<rparr>]
      | Inl x \<Rightarrow>
          [ConsoleError ''Bridge request failed:'',
           PostMessage
             \<lparr>msg_type = ''ERROR'',
              msg_requestId = map_option JStr (parsedRequestId e data),
              msg_payload = Some (JObj [(''context'', JStr ''handleBridgeRequest'')]),
              msg_error = Some (if instanceof_Error x then message x
                                else ''Unexpected native error'')\<rparr>])"
proof -
  obtain r tr where run: "sendPushNotificationViaBackend e n s = (r, s, tr)"
    using sendPushNotificationViaBackend_run by blast
  show ?thesis
  proof (cases r)
    case (Inl x)
    with run have "bridgeRequest e w data s = (Inl x, s, tr)"
      using assms bridgeRequest_send_backend_throws by blast
    with run Inl assms(1) show ?thesis
      by (simp add: handleBridgeRequest_def run_defs
          withRequestGuard_run [where h = "bridgeRequest e w data"])
  next
    case (Inr u)
    with run have "sendPushNotificationViaBackend e n s = (Inr (), s, tr)"
      by simp
    then have "bridgeRequest e w data s =
       (Inr (), s,
        tr @
        [PostMessage
           \<lparr>msg_type = ''SUCCESS'',
            msg_requestId = get_prop parsed ''requestId'',
            msg_payload = Some (JObj [(''action'', JStr ''SEND_PUSH_VIA_BACKEND'')]),
            msg_error = None\<rparr>])"
      using assms by (intro bridgeRequest_send_backend)
    with run Inr show ?thesis
      by (simp add: handleBridgeRequest_def run_defs
          withRequestGuard_run [where h = "bridgeRequest e w data"])
  qed
qed

lemma sendPushNotificationViaBackend_fetches:
  assumes "truthy (expoPushToken s)" "getBackendBaseUrl e = Some u"
  shows "fetches (trace (sendPushNotificationViaBackend e n s)) =
     [(u @ ''/send-notification'',
       JObj [(''token'', json_of_token (expoPushToken s)),
             (''title'', JStr (nd_title n)),
             (''body'', JStr (nd_body n)),
             (''data'', data_or_empty (nd_data n))])]"
proof -
  have "u \<noteq> []"
    using assms(2) getBackendBaseUrl_Some [of e] by auto
  then show ?thesis
    using assms
    by (simp add: sendPushNotificationViaBackend_def js_defs run_defs fetches_append
        split: sum.splits)
qed

lemma handleBridgeRequest_send_backend_fetches:
  assumes "webViewRef w"
    and "JSON_parse e data = Some parsed"
    and "get_prop parsed ''type'' = Some (JStr ''SEND_PUSH_VIA_BACKEND'')"
    and "toNotificationData (typeErrorMessage e) (get_prop parsed ''payload'') = Inr n"
  shows "fetches (trace (handleBridgeRequest e w data s)) =
           fetches (trace (sendPushNotificationViaBackend e n s))"
  by (simp add: handleBridgeRequest_send_backend [OF assms] fetches_append split: sum.splits)


text \<open>
  C4, as amended. For a \<^verbatim>\<open>SEND_PUSH_VIA_BACKEND\<close> or \<^verbatim>\<open>SEND_LOCAL_NOTIFICATION\<close>
  request: when the payload is not an object with both a \<^verbatim>\<open>title\<close> and a \<^verbatim>\<open>body\<close>, the
  one response is the \<^verbatim>\<open>ERROR\<close> \<^verbatim>\<open>Invalid notification payload received from web app\<close>,
  and neither an HTTP request nor a call into the operating system is made. When both
  fields are present the payload is never rejected as invalid. Each field goes through
  the string conversion, a string as it is, \<^verbatim>\<open>null\<close> as the empty string, any other value
  as \<^verbatim>\<open>String\<close> renders it. The Gateway is then called with the converted fields and
  \<^verbatim>\<open>SUCCESS\<close> is posted; the Relay is called with them, its request carries them when a
  token is stored, and its outcome decides between \<^verbatim>\<open>SUCCESS\<close> and \<^verbatim>\<open>ERROR\<close>. The
  exception is a field on which \<^verbatim>\<open>String\<close> itself raises, an object with an own
  \<^verbatim>\<open>toString\<close> property or an array holding one: the one response is then the
  \<^verbatim>\<open>ERROR\<close> with the message of that \<^verbatim>\<open>TypeError\<close>, and again neither an HTTP request
  nor a call into the operating system is made.
\<close>

theorem toNotificationData_dispatch:
  assumes "webViewRef w"
    and "JSON_parse e data = Some parsed"
    and "get_prop parsed ''type'' = Some (JStr ''SEND_PUSH_VIA_BACKEND'')
         \<or> get_prop parsed ''type'' = Some (JStr ''SEND_LOCAL_NOTIFICATION'')"
  shows "(\<not> (\<exists>props. get_prop parsed ''payload'' = Some (JObj props)
                \<and> map_of props ''title'' \<noteq> None \<and> map_of props ''body'' \<noteq> None) \<longrightarrow>
            posted (trace (handleBridgeRequest e w data s)) =
              [\<lparr>msg_type = ''ERROR'',
                msg_requestId = map_option JStr (parsedRequestId e data),
                msg_payload = Some (JObj [(''context'', JStr ''handleBridgeRequest'')]),
                msg_error = Some ''Invalid notification payload received from web app''\<rparr>]
            \<and> fetches (trace (handleBridgeRequest e w data s)) = []
            \<and> os_calls (trace (handleBridgeRequest e w data s)) = [])
       \<and> (\<forall>props t b. get_prop parsed ''payload'' = Some (JObj props) \<longrightarrow>
              map_of props ''title'' = Some t \<longrightarrow> map_of props ''body'' = Some b \<longrightarrow>
              toNotificationData (typeErrorMessage e) (Some (JObj props))
                \<noteq> Inl (Error ''Invalid notification payload received from web app'')
              \<and> (String_raises t \<or> String_raises b \<longrightarrow>
                    posted (trace (handleBridgeRequest e w data s)) =
                      [\<lparr>msg_type = ''ERROR'',
                        msg_requestId = map_option JStr (parsedRequestId e data),
                        msg_payload = Some (JObj [(''context'', JStr ''handleBridgeRequest'')]),
                        msg_error = Some (typeErrorMessage e ToPrimitive)\<rparr>]
                    \<and> fetches (trace (handleBridgeRequest e w data s)) = []
                    \<and> os_calls (trace (handleBridgeRequest e w data s)) = [])
              \<and> (\<not> String_raises t \<longrightarrow> \<not> String_raises b \<longrightarrow>
                    (\<exists>t' b'.
                       string_or_String (typeErrorMessage e) (Some t) = Inr t'
                       \<and> string_or_String (typeErrorMessage e) (Some b) = Inr b'
                       \<and> (get_prop parsed ''type'' = Some (JStr ''SEND_LOCAL_NOTIFICATION'') \<longrightarrow>
                            posted (trace (handleBridgeRequest e w data s)) =
                              [\<lparr>msg_type = ''SUCCESS'',
                                msg_requestId = get_prop parsed ''requestId'',
                                msg_payload =
                                  Some (JObj [(''action'', JStr ''SEND_LOCAL_NOTIFICATION'')]),
                                msg_error = None\<rparr>]
                            \<and> os_calls (trace (handleBridgeRequest e w data s)) =
                                [ScheduleNotificationAsync
                                   (JObj [(''title'', JStr t'), (''body'', JStr b'),
                                          (''data'',
                                           data_or_empty
                                             (object_or_undefined (map_of props ''data''))),
                                          (''sound'', JStr ''default'')])]
                            \<and> fetches (trace (handleBridgeRequest e w data s)) = [])
                       \<and> (get_prop parsed ''type'' = Some (JStr ''SEND_PUSH_VIA_BACKEND'') \<longrightarrow>
                            trace (handleBridgeRequest e w data s) =
                              trace (sendPushNotificationViaBackend e
                                       \<lparr>nd_title = t', nd_body = b',
                                        nd_data = object_or_undefined (map_of props ''data'')\<rparr> s) @
                              (case outcome (sendPushNotificationViaBackend e
                                       \<lparr>nd_title = t', nd_body = b',
                                        nd_data = object_or_undefined (map_of props ''data'')\<rparr> s) of
                                 Inr u \<Rightarrow>
                                   [PostMessage
                                      \<lparr>msg_type = ''SUCCESS'',
                                       msg_requestId = get_prop parsed ''requestId'',
                                       msg_payload =
                                         Some (JObj [(''action'', JStr ''SEND_PUSH_VIA_BACKEND'')]),
                                       msg_error = None\<rparr>]
                               | Inl x \<Rightarrow>
                                   [ConsoleError ''Bridge request failed:'',
                                    PostMessage
                                      \<lparr>msg_type = ''ERROR'',
                                       msg_requestId = map_option JStr (parsedRequestId e data),
                                       msg_payload =
                                         Some (JObj [(''context'', JStr ''handleBridgeRequest'')]),
                                       msg_error =
                                         Some (if instanceof_Error x then message x
                                               else ''Unexpected native error'')\<rparr>])
                            \<and> (\<forall>u. truthy (expoPushToken s) \<longrightarrow> getBackendBaseUrl e = Some u \<longrightarrow>
                                  fetches (trace (handleBridgeRequest e w data s)) =
                                    [(u @ ''/send-notification'',
                                      JObj [(''token'', json_of_token (expoPushToken s)),
                                            (''title'', JStr t'), (''body'', JStr b'),
                                            (''data'',
                                             data_or_empty
                                               (object_or_undefined (map_of props ''data'')))])])))))
       \<and> string_or_String te (Some (JStr str)) = Inr str
       \<and> string_or_String te (Some JNull) = Inr []
       \<and> string_or_String te None = Inr []
       \<and> string_or_String te (Some (JBool True)) = Inr ''true''
       \<and> string_or_String te (Some (JNum num)) = Inr num
       \<and> string_or_String te (Some (JObj [])) = Inr ''[object Object]''
       \<and> string_or_String te (Some (JArr [JNum ''1'', JNull, JStr ''a''])) = Inr ''1,,a''
       \<and> string_or_String te (Some (JObj [(''toString'', JNum ''1'')])) = Inl (TypeError (te ToPrimitive))"
proof -
  let ?payload = "get_prop parsed ''payload''"
  let ?H = "handleBridgeRequest e w data s"
  have a: "posted (trace ?H) =
              [\<lparr>msg_type = ''ERROR'',
                msg_requestId = map_option JStr (parsedRequestId e data),
                msg_payload = Some (JObj [(''context'', JStr ''handleBridgeRequest'')]),
                msg_error = Some ''Invalid notification payload received from web app''\<rparr>]
            \<and> fetches (trace ?H) = [] \<and> os_calls (trace ?H) = []"
    if "\<not> (\<exists>props. ?payload = Some (JObj props)
                \<and> map_of props ''title'' \<noteq> None \<and> map_of props ''body'' \<noteq> None)"
  proof -
    have "toNotificationData (typeErrorMessage e) ?payload =
            Inl (Error ''Invalid notification payload received from web app'')"
      using that by (rule toNotificationData_invalid)
    from handleBridgeRequest_rejected [OF assms this, of s] show ?thesis
      by (simp add: os_calls_def)
  qed
  have b: "toNotificationData (typeErrorMessage e) (Some (JObj props))
                \<noteq> Inl (Error ''Invalid notification payload received from web app'')"
    if "map_of props ''title'' = Some t" "map_of props ''body'' = Some b" for props t b
  proof (cases "String_raises t \<or> String_raises b")
    case True
    with that show ?thesis
      by (simp add: toNotificationData_raises)
  next
    case False
    with that toNotificationData_converts [of props t b "typeErrorMessage e"] show ?thesis
      by auto
  qed
  have c: "posted (trace ?H) =
              [\<lparr>msg_type = ''ERROR'',
                msg_requestId = map_option JStr (parsedRequestId e data),
                msg_payload = Some (JObj [(''context'', JStr ''handleBridgeRequest'')]),
                msg_error = Some (typeErrorMessage e ToPrimitive)\<rparr>]
            \<and> fetches (trace ?H) = [] \<and> os_calls (trace ?H) = []"
    if "?payload = Some (JObj props)" "map_of props ''title'' = Some t"
      "map_of props ''body'' = Some b" "String_raises t \<or> String_raises b" for props t b
  proof -
    have "toNotificationData (typeErrorMessage e) ?payload =
            Inl (TypeError (typeErrorMessage e ToPrimitive))"
      using that by (simp add: toNotificationData_raises)
    from handleBridgeRequest_rejected [OF assms this, of s] show ?thesis
      by (simp add: os_calls_def)
  qed
  have d: "\<exists>t' b'.
       string_or_String (typeErrorMessage e) (Some t) = Inr t'
       \<and> string_or_String (typeErrorMessage e) (Some b) = Inr b'
       \<and> (get_prop parsed ''type'' = Some (JStr ''SEND_LOCAL_NOTIFICATION'') \<longrightarrow>
            posted (trace ?H) =
              [\<lparr>msg_type = ''SUCCESS'',
                msg_requestId = get_prop parsed ''requestId'',
                msg_payload = Some (JObj [(''action'', JStr ''SEND_LOCAL_NOTIFICATION'')]),
                msg_error = None\<rparr>]
            \<and> os_calls (trace ?H) =
                [ScheduleNotificationAsync
                   (JObj [(''title'', JStr t'), (''body'', JStr b'),
                          (''data'', data_or_empty (object_or_undefined (map_of props ''data''))),
                          (''sound'', JStr ''default'')])]
            \<and> fetches (trace ?H) = [])
       \<and> (get_prop parsed ''type'' = Some (JStr ''SEND_PUSH_VIA_BACKEND'') \<longrightarrow>
            trace ?H =
              trace (sendPushNotificationViaBackend e
                       \<lparr>nd_title = t', nd_body = b',
                        nd_data = object_or_undefined (map_of props ''data'')\<rparr> s) @
              (case outcome (sendPushNotificationViaBackend e
                       \<lparr>nd_title = t', nd_body = b',
                        nd_data = object_or_undefined (map_of props ''data'')\<rparr> s) of
                 Inr u \<Rightarrow>
                   [PostMessage
                      \<lparr>msg_type = ''SUCCESS'',
                       msg_requestId = get_prop parsed ''requestId'',
                       msg_payload = Some (JObj [(''action'', JStr ''SEND_PUSH_VIA_BACKEND'')]),
                       msg_error = None\<rparr>]
               | Inl x \<Rightarrow>
                   [ConsoleError ''Bridge request failed:'',
                    PostMessage
                      \<lparr>msg_type = ''ERROR'',
                       msg_requestId = map_option JStr (parsedRequestId e data),
                       msg_payload = Some (JObj [(''context'', JStr ''handleBridgeRequest'')]),
                       msg_error =
                         Some (if instanceof_Error x then message x
                               else ''Unexpected native error'')\<rparr>])
            \<and> (\<forall>u. truthy (expoPushToken s) \<longrightarrow> getBackendBaseUrl e = Some u \<longrightarrow>
                  fetches (trace ?H) =
                    [(u @ ''/send-notification'',
                      JObj [(''token'', json_of_token (expoPushToken s)),
                            (''title'', JStr t'), (''body'', JStr b'),
                            (''data'',
                             data_or_empty (object_or_undefined (map_of props ''data'')))])]))"
    if p: "?payload = Some (JObj props)" "map_of props ''title'' = Some t"
      "map_of props ''body'' = Some b" "\<not> String_raises t" "\<not> String_raises b" for props t b
  proof -
    obtain t' b' where conv: "string_or_String (typeErrorMessage e) (Some t) = Inr t'"
      "string_or_String (typeErrorMessage e) (Some b) = Inr b'"
      and nd: "toNotificationData (typeErrorMessage e) (Some (JObj props)) =
               Inr \<lparr>nd_title = t', nd_body = b',
                    nd_data = object_or_undefined (map_of props ''data'')\<rparr>"
      using toNotificationData_converts [OF p(2-5)] by blast
    let ?n = "\<lparr>nd_title = t', nd_body = b',
               nd_data = object_or_undefined (map_of props ''data'')\<rparr>"
    from nd p(1) have nd': "toNotificationData (typeErrorMessage e) ?payload = Inr ?n"
      by simp
    have local: "posted (trace ?H) =
              [\<lparr>msg_type = ''SUCCESS'',
                msg_requestId = get_prop parsed ''requestId'',
                msg_payload = Some (JObj [(''action'', JStr ''SEND_LOCAL_NOTIFICATION'')]),
                msg_error = None\<rparr>]
            \<and> os_calls (trace ?H) =
                [ScheduleNotificationAsync
                   (JObj [(''title'', JStr t'), (''body'', JStr b'),
                          (''data'', data_or_empty (object_or_undefined (map_of props ''data''))),
                          (''sound'', JStr ''default'')])]
            \<and> fetches (trace ?H) = []"
      if ty: "get_prop parsed ''type'' = Some (JStr ''SEND_LOCAL_NOTIFICATION'')"
      using sendLocalNotification_trace [of e ?n s]
      by (simp add: handleBridgeRequest_def run_defs os_calls_def posted_append fetches_append
          bridgeRequest_send_local [OF assms(2) ty nd' assms(1)]
          withRequestGuard_run [where h = "bridgeRequest e w data"])
    have backend: "trace ?H =
              trace (sendPushNotificationViaBackend e ?n s) @
              (case outcome (sendPushNotificationViaBackend e ?n s) of
                 Inr u \<Rightarrow>
                   [PostMessage
                      \<lparr>msg_type = ''SUCCESS'',
                       msg_requestId = get_prop parsed ''requestId'',
                       msg_payload = Some (JObj [(''action'', JStr ''SEND_PUSH_VIA_BACKEND'')]),
                       msg_error = None\<rparr>]
               | Inl x \<Rightarrow>
                   [ConsoleError ''Bridge request failed:'',
                    PostMessage
                      \<lparr>msg_type = ''ERROR'',
                       msg_requestId = map_option JStr (parsedRequestId e data),
                       msg_payload = Some (JObj [(''context'', JStr ''handleBridgeRequest'')]),
                       msg_error =
                         Some (if instanceof_Error x then message x
                               else ''Unexpected native error'')\<rparr>])"
      if ty: "get_prop parsed ''type'' = Some (JStr ''SEND_PUSH_VIA_BACKEND'')"
      using assms(1,2) ty nd' by (rule handleBridgeRequest_send_backend)
    have sent: "fetches (trace ?H) =
                    [(u @ ''/send-notification'',
                      JObj [(''token'', json_of_token (expoPushToken s)),
                            (''title'', JStr t'), (''body'', JStr b'),
                            (''data'',
                             data_or_empty (object_or_undefined (map_of props ''data'')))])]"
      if ty: "get_prop parsed ''type'' = Some (JStr ''SEND_PUSH_VIA_BACKEND'')"
        and tok: "truthy (expoPushToken s)" and url: "getBackendBaseUrl e = Some u" for u
      using handleBridgeRequest_send_backend_fetches [OF assms(1,2) ty nd', of s]
        sendPushNotificationViaBackend_fetches [OF tok url, of ?n]
      by simp
    from conv local backend sent show ?thesis
      by blast
  qed
  have f: "string_or_String te (Some (JStr str)) = Inr str
       \<and> string_or_String te (Some JNull) = Inr []
       \<and> string_or_String te None = Inr []
       \<and> string_or_String te (Some (JBool True)) = Inr ''true''
       \<and> string_or_String te (Some (JNum num)) = Inr num
       \<and> string_or_String te (Some (JObj [])) = Inr ''[object Object]''
       \<and> string_or_String te (Some (JArr [JNum ''1'', JNull, JStr ''a''])) = Inr ''1,,a''
       \<and> string_or_String te (Some (JObj [(''toString'', JNum ''1'')])) = Inl (TypeError (te ToPrimitive))"
    by simp
  show ?thesis
    apply (intro conjI impI allI)
    using a b c d f by blast+
qed


theorem toNotificationData_dispatch_witness:
  "webViewRef initial_bridge
   \<and> JSON_parse device_env send_local_text = Some send_local_json
   \<and> get_prop send_local_json ''type'' = Some (JStr ''SEND_LOCAL_NOTIFICATION'')
   \<and> \<not> (\<exists>props. get_prop send_local_json ''payload'' = Some (JObj props)
                \<and> map_of props ''title'' \<noteq> None \<and> map_of props ''body'' \<noteq> None)
   \<and> posted (trace (handleBridgeRequest device_env initial_bridge send_local_text unregistered)) =
        [\<lparr>msg_type = ''ERROR'',
          msg_requestId = Some (JStr ''r3''),
          msg_payload = Some (JObj [(''context'', JStr ''handleBridgeRequest'')]),
          msg_error = Some ''Invalid notification payload received from web app''\<rparr>]
   \<and> fetches (trace (handleBridgeRequest device_env initial_bridge send_local_text unregistered)) = []
   \<and> os_calls (trace (handleBridgeRequest device_env initial_bridge send_local_text unregistered)) = []
   \<and> JSON_parse device_env send_coerced_text = Some send_coerced_json
   \<and> get_prop send_coerced_json ''type'' = Some (JStr ''SEND_LOCAL_NOTIFICATION'')
   \<and> get_prop send_coerced_json ''payload'' = Some (JObj [(''title'', JNum ''5''), (''body'', JNull)])
   \<and> \<not> String_raises (JNum ''5'') \<and> \<not> String_raises JNull
   \<and> posted (trace (handleBridgeRequest device_env initial_bridge send_coerced_text unregistered)) =
        [\<lparr>msg_type = ''SUCCESS'',
          msg_requestId = Some (JStr ''r5''),
          msg_payload = Some (JObj [(''action'', JStr ''SEND_LOCAL_NOTIFICATION'')]),
          msg_error = None\<rparr>]
   \<and> os_calls (trace (handleBridgeRequest device_env initial_bridge send_coerced_text unregistered)) =
        [ScheduleNotificationAsync
           (JObj [(''title'', JStr ''5''), (''body'', JStr []),
                  (''data'', JObj []), (''sound'', JStr ''default'')])]
   \<and> JSON_parse device_env send_backend_text = Some send_backend_json
   \<and> get_prop send_backend_json ''type'' = Some (JStr ''SEND_PUSH_VIA_BACKEND'')
   \<and> get_prop send_backend_json ''payload'' = Some (JObj [(''title'', JStr ''T''), (''body'', JStr ''B'')])
   \<and> truthy (expoPushToken registered)
   \<and> fetches (trace (handleBridgeRequest device_env initial_bridge send_backend_text registered)) =
        [(''https://5fd5bd8a6a0c.ngrok-free.app/send-notification'',
          JObj [(''token'', JStr ''fcm-token-1''), (''title'', JStr ''T''), (''body'', JStr ''B''),
                (''data'', JObj [])])]"
proof -
  have h1: "webViewRef initial_bridge"
    by (simp add: sample_defs)
  have h2: "JSON_parse device_env send_local_text = Some send_local_json"
    by (simp add: sample_defs)
  have h3: "get_prop send_local_json ''type'' = Some (JStr ''SEND_PUSH_VIA_BACKEND'')
         \<or> get_prop send_local_json ''type'' = Some (JStr ''SEND_LOCAL_NOTIFICATION'')"
    by (simp add: sample_defs)
  have h4: "\<not> (\<exists>props. get_prop send_local_json ''payload'' = Some (JObj props)
                \<and> map_of props ''title'' \<noteq> None \<and> map_of props ''body'' \<noteq> None)"
    by (auto simp add: sample_defs)
  have p: "parsedRequestId device_env send_local_text = Some ''r3''"
    by (simp add: parsedRequestId_def h2) (simp add: sample_defs)
  note invalid = toNotificationData_dispatch [OF h1 h2 h3, of unregistered, THEN conjunct1,
      THEN mp, OF h4]
  have g2: "JSON_parse device_env send_coerced_text = Some send_coerced_json"
    by (simp add: sample_defs)
  have g3: "get_prop send_coerced_json ''type'' = Some (JStr ''SEND_LOCAL_NOTIFICATION'')"
    by (simp add: sample_defs)
  have g3': "get_prop send_coerced_json ''type'' = Some (JStr ''SEND_PUSH_VIA_BACKEND'')
         \<or> get_prop send_coerced_json ''type'' = Some (JStr ''SEND_LOCAL_NOTIFICATION'')"
    by (simp add: sample_defs)
  have g4: "get_prop send_coerced_json ''payload''
      = Some (JObj [(''title'', JNum ''5''), (''body'', JNull)])"
    by (simp add: sample_defs)
  have g5: "map_of [(''title'', JNum ''5''), (''body'', JNull)] ''title'' = Some (JNum ''5'')"
    "map_of [(''title'', JNum ''5''), (''body'', JNull)] ''body'' = Some JNull"
    by simp_all
  have g6: "\<not> String_raises (JNum ''5'')" "\<not> String_raises JNull"
    by simp_all
  have r5: "get_prop send_coerced_json ''requestId'' = Some (JStr ''r5'')"
    by (simp add: sample_defs)
  note coerced = toNotificationData_dispatch [OF h1 g2 g3', of unregistered, THEN conjunct2,
      THEN conjunct1, THEN spec, THEN spec, THEN spec, THEN mp, THEN mp, THEN mp,
      OF g4 g5, THEN conjunct2, THEN conjunct2, THEN mp, THEN mp, OF g6]
  then obtain t' b' where
    conv: "string_or_String (typeErrorMessage device_env) (Some (JNum ''5'')) = Inr t'"
      "string_or_String (typeErrorMessage device_env) (Some JNull) = Inr b'"
    and loc: "get_prop send_coerced_json ''type'' = Some (JStr ''SEND_LOCAL_NOTIFICATION'') \<longrightarrow>
       posted (trace (handleBridgeRequest device_env initial_bridge send_coerced_text unregistered)) =
         [\<lparr>msg_type = ''SUCCESS'',
           msg_requestId = get_prop send_coerced_json ''requestId'',
           msg_payload = Some (JObj [(''action'', JStr ''SEND_LOCAL_NOTIFICATION'')]),
           msg_error = None\<rparr>]
       \<and> os_calls (trace (handleBridgeRequest device_env initial_bridge send_coerced_text unregistered)) =
           [ScheduleNotificationAsync
              (JObj [(''title'', JStr t'), (''body'', JStr b'),
                     (''data'',
                      data_or_empty
                        (object_or_undefined
                           (map_of [(''title'', JNum ''5''), (''body'', JNull)] ''data''))),
                     (''sound'', JStr ''default'')])]
       \<and> fetches (trace (handleBridgeRequest device_env initial_bridge send_coerced_text unregistered)) = []"
    by blast
  from conv have tb: "t' = ''5''" "b' = []"
    by simp_all
  have k2: "JSON_parse device_env send_backend_text = Some send_backend_json"
    by (simp add: sample_defs)
  have k3: "get_prop send_backend_json ''type'' = Some (JStr ''SEND_PUSH_VIA_BACKEND'')"
    by (simp add: sample_defs)
  have k3': "get_prop send_backend_json ''type'' = Some (JStr ''SEND_PUSH_VIA_BACKEND'')
         \<or> get_prop send_backend_json ''type'' = Some (JStr ''SEND_LOCAL_NOTIFICATION'')"
    by (simp add: sample_defs)
  have k4: "get_prop send_backend_json ''payload''
      = Some (JObj [(''title'', JStr ''T''), (''body'', JStr ''B'')])"
    by (simp add: sample_defs)
  have k5: "map_of [(''title'', JStr ''T''), (''body'', JStr ''B'')] ''title'' = Some (JStr ''T'')"
    "map_of [(''title'', JStr ''T''), (''body'', JStr ''B'')] ''body'' = Some (JStr ''B'')"
    by simp_all
  have k6: "\<not> String_raises (JStr ''T'')" "\<not> String_raises (JStr ''B'')"
    by simp_all
  have k7: "truthy (expoPushToken registered)"
    by (simp add: sample_defs)
  have k8: "getBackendBaseUrl device_env = Some ''https://5fd5bd8a6a0c.ngrok-free.app''"
    by (simp add: getBackendBaseUrl_def js_or_def sample_defs)
  note backend = toNotificationData_dispatch [OF h1 k2 k3', of registered, THEN conjunct2,
      THEN conjunct1, THEN spec, THEN spec, THEN spec, THEN mp, THEN mp, THEN mp,
      OF k4 k5, THEN conjunct2, THEN conjunct2, THEN mp, THEN mp, OF k6]
  then obtain t'' b'' where
    conv2: "string_or_String (typeErrorMessage device_env) (Some (JStr ''T'')) = Inr t''"
      "string_or_String (typeErrorMessage device_env) (Some (JStr ''B'')) = Inr b''"
    and sent: "\<forall>u. truthy (expoPushToken registered) \<longrightarrow> getBackendBaseUrl device_env = Some u \<longrightarrow>
       fetches (trace (handleBridgeRequest device_env initial_bridge send_backend_text registered)) =
         [(u @ ''/send-notification'',
           JObj [(''token'', json_of_token (expoPushToken registered)),
                 (''title'', JStr t''), (''body'', JStr b''),
                 (''data'',
                  data_or_empty
                    (object_or_undefined
                       (map_of [(''title'', JStr ''T''), (''body'', JStr ''B'')] ''data'')))])]"
    using k3 by blast
  from conv2 have tb2: "t'' = ''T''" "b'' = ''B''"
    by simp_all
  from sent k7 k8 have fetched:
    "fetches (trace (handleBridgeRequest device_env initial_bridge send_backend_text registered)) =
         [(''https://5fd5bd8a6a0c.ngrok-free.app'' @ ''/send-notification'',
           JObj [(''token'', json_of_token (expoPushToken registered)),
                 (''title'', JStr t''), (''body'', JStr b''),
                 (''data'',
                  data_or_empty
                    (object_or_undefined
                       (map_of [(''title'', JStr ''T''), (''body'', JStr ''B'')] ''data'')))])]"
    by blast
  have first: "posted (trace (handleBridgeRequest device_env initial_bridge send_local_text unregistered)) =
        [\<lparr>msg_type = ''ERROR'',
          msg_requestId = Some (JStr ''r3''),
          msg_payload = Some (JObj [(''context'', JStr ''handleBridgeRequest'')]),
          msg_error = Some ''Invalid notification payload received from web app''\<rparr>]
   \<and> fetches (trace (handleBridgeRequest device_env initial_bridge send_local_text unregistered)) = []
   \<and> os_calls (trace (handleBridgeRequest device_env initial_bridge send_local_text unregistered)) = []"
    using invalid p by simp
  have second: "posted (trace (handleBridgeRequest device_env initial_bridge send_coerced_text unregistered)) =
        [\<lparr>msg_type = ''SUCCESS'',
          msg_requestId = Some (JStr ''r5''),
          msg_payload = Some (JObj [(''action'', JStr ''SEND_LOCAL_NOTIFICATION'')]),
          msg_error = None\<rparr>]
   \<and> os_calls (trace (handleBridgeRequest device_env initial_bridge send_coerced_text unregistered)) =
        [ScheduleNotificationAsync
           (JObj [(''title'', JStr ''5''), (''body'', JStr []),
                  (''data'', JObj []), (''sound'', JStr ''default'')])]"
    using loc g3 r5 tb by (simp add: object_or_undefined_def)
  have third: "fetches (trace (handleBridgeRequest device_env initial_bridge send_backend_text registered)) =
        [(''https://5fd5bd8a6a0c.ngrok-free.app/send-notification'',
          JObj [(''token'', JStr ''fcm-token-1''), (''title'', JStr ''T''), (''body'', JStr ''B''),
                (''data'', JObj [])])]"
    using fetched tb2 by (simp add: object_or_undefined_def registered_def)
  from h1 h2 h4 first g2 g3 g4 g6 second k2 k3 k4 k7 third show ?thesis
    by (simp add: send_local_json_def)
qed

text \<open>
  As first stated, C4 has every non-string value of a present field coerced rather than
  rejected. A \<^verbatim>\<open>title\<close> that is an object with an own \<^verbatim>\<open>toString\<close> property is present
  and is not a string, yet the request is answered with \<^verbatim>\<open>ERROR\<close> and nothing is
  scheduled.
\<close>

theorem toNotificationData_dispatch_counterexample:
  "get_prop send_toString_json ''type'' = Some (JStr ''SEND_LOCAL_NOTIFICATION'')
   \<and> get_prop send_toString_json ''payload''
       = Some (JObj [(''title'', JObj [(''toString'', JNum ''1'')]), (''body'', JStr ''B'')])
   \<and> posted (trace (handleBridgeRequest device_env initial_bridge send_toString_text unregistered)) =
        [\<lparr>msg_type = ''ERROR'',
          msg_requestId = Some (JStr ''r6''),
          msg_payload = Some (JObj [(''context'', JStr ''handleBridgeRequest'')]),
          msg_error = Some ''TypeError''\<rparr>]
   \<and> os_calls (trace (handleBridgeRequest device_env initial_bridge send_toString_text unregistered)) = []
   \<and> fetches (trace (handleBridgeRequest device_env initial_bridge send_toString_text unregistered)) = []"
proof -
  have h1: "webViewRef initial_bridge"
    by (simp add: sample_defs)
  have h2: "JSON_parse device_env send_toString_text = Some send_toString_json"
    by (simp add: sample_defs)
  have h3: "get_prop send_toString_json ''type'' = Some (JStr ''SEND_LOCAL_NOTIFICATION'')"
    by (simp add: sample_defs)
  have h3': "get_prop send_toString_json ''type'' = Some (JStr ''SEND_PUSH_VIA_BACKEND'')
         \<or> get_prop send_toString_json ''type'' = Some (JStr ''SEND_LOCAL_NOTIFICATION'')"
    by (simp add: sample_defs)
  have h4: "get_prop send_toString_json ''payload''
       = Some (JObj [(''title'', JObj [(''toString'', JNum ''1'')]), (''body'', JStr ''B'')])"
    by (simp add: sample_defs)
  have te: "typeErrorMessage device_env ToPrimitive = ''TypeError''"
    by (simp add: sample_defs)
  have n: "toNotificationData (typeErrorMessage device_env) (get_prop send_toString_json ''payload'')
      = Inl (TypeError ''TypeError'')"
    by (simp add: h4 toNotificationData_def te)
  have p: "parsedRequestId device_env send_toString_text = Some ''r6''"
    by (simp add: parsedRequestId_def h2) (simp add: sample_defs)
  from handleBridgeRequest_rejected [OF h1 h2 h3' n, of unregistered] p h3 h4 show ?thesis
    by (simp add: os_calls_def)
qed

section \<open>Sending through the backend without a token\<close>

text \<open>
  C2, as amended. A \<^verbatim>\<open>SEND_PUSH_VIA_BACKEND\<close> request dispatched while no token is stored
  issues no HTTP request, lets no failure past the handler and leaves the service as it
  was. The Relay only logs the missing token and returns, so the embedded content receives
  the \<^verbatim>\<open>SUCCESS\<close> response when the payload passes \<^verbatim>\<open>toNotificationData\<close>, and the
  \<^verbatim>\<open>ERROR\<close> response for the payload otherwise.
\<close>

theorem send_via_backend_without_token:
  assumes "expoPushToken s = None"
    and "webViewRef w"
    and "JSON_parse e data = Some parsed"
    and "get_prop parsed ''type'' = Some (JStr ''SEND_PUSH_VIA_BACKEND'')"
  shows "fetches (trace (handleBridgeRequest e w data s)) = []
       \<and> outcome (handleBridgeRequest e w data s) = Inr ()
       \<and> state_after (handleBridgeRequest e w data s) = s
       \<and> posted (trace (handleBridgeRequest e w data s)) =
           [case toNotificationData (typeErrorMessage e) (get_prop parsed ''payload'') of
              Inr n \<Rightarrow>
                \<lparr>msg_type = ''SUCCESS'',
                 msg_requestId = get_prop parsed ''requestId'',
                 msg_payload = Some (JObj [(''action'', JStr ''SEND_PUSH_VIA_BACKEND'')]),
                 msg_error = None\<rparr>
            | Inl x \<Rightarrow>
                \<lparr>msg_type = ''ERROR'',
                 msg_requestId = map_option JStr (parsedRequestId e data),
                 msg_payload = Some (JObj [(''context'', JStr ''handleBridgeRequest'')]),
                 msg_error = Some (if instanceof_Error x then message x
                                   else ''Unexpected native error'')\<rparr>]"
proof (cases "toNotificationData (typeErrorMessage e) (get_prop parsed ''payload'')")
  case (Inl x)
  then have "bridgeRequest e w data s = (Inl x, s, [])"
    using assms bridgeRequest_payload_rejected by blast
  with Inl assms(2) show ?thesis
    by (simp add: handleBridgeRequest_def run_defs
        withRequestGuard_run [where h = "bridgeRequest e w data"])
next
  case (Inr n)
  have "sendPushNotificationViaBackend e n s =
          (Inr (), s, [ConsoleLog ''No push token available to send to backend''])"
    using assms(1) by (simp add: sendPushNotificationViaBackend_no_token)
  then have "bridgeRequest e w data s =
     (Inr (), s,
      [ConsoleLog ''No push token available to send to backend''] @
      [PostMessage
         \<lparr>msg_type = ''SUCCESS'',
          msg_requestId = get_prop parsed ''requestId'',
          msg_payload = Some (JObj [(''action'', JStr ''SEND_PUSH_VIA_BACKEND'')]),
          msg_error = None\<rparr>])"
    using assms Inr by (intro bridgeRequest_send_backend)
  with Inr show ?thesis
    by (simp add: handleBridgeRequest_def run_defs
        withRequestGuard_run [where h = "bridgeRequest e w data"])
qed

theorem send_via_backend_without_token_witness:
  "expoPushToken unregistered = None
   \<and> webViewRef initial_bridge
   \<and> JSON_parse device_env send_backend_text = Some send_backend_json
   \<and> get_prop send_backend_json ''type'' = Some (JStr ''SEND_PUSH_VIA_BACKEND'')
   \<and> fetches (trace (handleBridgeRequest device_env initial_bridge send_backend_text unregistered)) = []
   \<and> outcome (handleBridgeRequest device_env initial_bridge send_backend_text unregistered) = Inr ()
   \<and> state_after (handleBridgeRequest device_env initial_bridge send_backend_text unregistered)
       = unregistered"
proof -
  have h1: "expoPushToken unregistered = None"
    by (simp add: sample_defs)
  have h2: "webViewRef initial_bridge"
    by (simp add: sample_defs)
  have h3: "JSON_parse device_env send_backend_text = Some send_backend_json"
    by (simp add: sample_defs)
  have h4: "get_prop send_backend_json ''type'' = Some (JStr ''SEND_PUSH_VIA_BACKEND'')"
    by (simp add: sample_defs)
  from send_via_backend_without_token [OF h1 h2 h3 h4] h1 h2 h3 h4 show ?thesis
    by simp
qed

text \<open>
  As first stated, C2 asks for an error response. With no token stored and a payload that
  is valid, the response is \<^verbatim>\<open>SUCCESS\<close>.
\<close>

theorem send_via_backend_without_token_counterexample:
  "expoPushToken unregistered = None
   \<and> posted (trace (handleBridgeRequest device_env initial_bridge send_backend_text unregistered)) =
       [\<lparr>msg_type = ''SUCCESS'',
         msg_requestId = Some (JStr ''r2''),
         msg_payload = Some (JObj [(''action'', JStr ''SEND_PUSH_VIA_BACKEND'')]),
         msg_error = None\<rparr>]"
proof -
  have p: "JSON_parse device_env send_backend_text = Some send_backend_json"
    by (simp add: sample_defs)
  have n: "toNotificationData (typeErrorMessage device_env) (get_prop send_backend_json ''payload'')
      = Inr \<lparr>nd_title = ''T'', nd_body = ''B'', nd_data = None\<rparr>"
    by (simp add: send_backend_json_def toNotificationData_def object_or_undefined_def)
  have "sendPushNotificationViaBackend device_env \<lparr>nd_title = ''T'', nd_body = ''B'', nd_data = None\<rparr>
          unregistered =
          (Inr (), unregistered, [ConsoleLog ''No push token available to send to backend''])"
    by (simp add: sendPushNotificationViaBackend_no_token unregistered_def)
  then have "bridgeRequest device_env initial_bridge send_backend_text unregistered =
     (Inr (), unregistered,
      [ConsoleLog ''No push token available to send to backend''] @
      [PostMessage
         \<lparr>msg_type = ''SUCCESS'',
          msg_requestId = get_prop send_backend_json ''requestId'',
          msg_payload = Some (JObj [(''action'', JStr ''SEND_PUSH_VIA_BACKEND'')]),
          msg_error = None\<rparr>])"
    using p n by (intro bridgeRequest_send_backend) (simp_all add: sample_defs)
  then show ?thesis
    by (simp add: handleBridgeRequest_def run_defs unregistered_def send_backend_json_def
        withRequestGuard_run [where h = "bridgeRequest device_env initial_bridge send_backend_text"])
qed


section \<open>Registration\<close>

lemma sendTokenToBackend_eq:
  "sendTokenToBackend e t s = (Inr (), s, trace (sendTokenToBackend e t s))"
  using sendTokenToBackend_run [of e t s] by (auto simp add: run_defs)

lemma register_outcome:
  "outcome (registerForPushNotifications e s) =
     Inr (if \<not> isDevice e \<or> isRunningInExpoGo e then None
          else
            (case getPermissionsAsync e of
               Inl x \<Rightarrow> None
             | Inr existingStatus \<Rightarrow>
                 (case (if existingStatus \<noteq> ''granted'' then requestPermissionsAsync e
                        else Inr existingStatus) of
                    Inl x \<Rightarrow> None
                  | Inr finalStatus \<Rightarrow>
                      if finalStatus \<noteq> ''granted'' \<or> \<not> truthy (resolveProjectId e) then None
                      else
                        (case getDevicePushTokenAsync e of
                           Inl x \<Rightarrow> None
                         | Inr tok \<Rightarrow>
                             if platformOS e = ''android''
                             then (case setNotificationChannelAsync e of
                                     Inl x \<Rightarrow> None
                                   | Inr u \<Rightarrow> Some tok)
                             else Some tok))))"
proof -
  define tr0 where "tr0 = (\<lambda>t s. trace (sendTokenToBackend e t s))"
  have t: "sendTokenToBackend e t s = (Inr (), s, tr0 t s)" for t s
    using sendTokenToBackend_eq by (simp add: tr0_def)
  show ?thesis
    by (simp add: registerForPushNotifications_def t setupAndroidChannel_def js_defs run_defs
        split: sum.splits)
qed

lemma register_success:
  assumes "outcome (registerForPushNotifications e s) = Inr (Some t)"
  shows "expoPushToken (state_after (registerForPushNotifications e s)) = Some t"
proof -
  define tr0 where "tr0 = (\<lambda>t s. trace (sendTokenToBackend e t s))"
  have t: "sendTokenToBackend e t s = (Inr (), s, tr0 t s)" for t s
    using sendTokenToBackend_eq by (simp add: tr0_def)
  show ?thesis
    using assms
    by (simp add: registerForPushNotifications_def t setupAndroidChannel_def js_defs run_defs
        split: sum.splits if_splits)
qed

text \<open>
  C5. \<^verbatim>\<open>registerForPushNotifications\<close> never throws. It returns \<^verbatim>\<open>null\<close> on an emulator,
  inside Expo Go, when permission is not granted, when no project id is configured, and
  when reading or requesting the permissions, obtaining the device token or setting up
  the Android channel raises.
\<close>

theorem registerForPushNotifications_never_throws:
  "(\<exists>r. outcome (registerForPushNotifications e s) = Inr r)
   \<and> (\<not> isDevice e \<longrightarrow> outcome (registerForPushNotifications e s) = Inr None)
   \<and> (isRunningInExpoGo e \<longrightarrow> outcome (registerForPushNotifications e s) = Inr None)
   \<and> (\<forall>st st'. getPermissionsAsync e = Inr st \<longrightarrow> st \<noteq> ''granted'' \<longrightarrow>
          requestPermissionsAsync e = Inr st' \<longrightarrow> st' \<noteq> ''granted'' \<longrightarrow>
          outcome (registerForPushNotifications e s) = Inr None)
   \<and> (\<not> truthy (resolveProjectId e) \<longrightarrow> outcome (registerForPushNotifications e s) = Inr None)
   \<and> (\<forall>x. getPermissionsAsync e = Inl x \<longrightarrow>
          outcome (registerForPushNotifications e s) = Inr None)
   \<and> (\<forall>x. getPermissionsAsync e \<noteq> Inr ''granted'' \<longrightarrow> requestPermissionsAsync e = Inl x \<longrightarrow>
          outcome (registerForPushNotifications e s) = Inr None)
   \<and> (\<forall>x. getDevicePushTokenAsync e = Inl x \<longrightarrow>
          outcome (registerForPushNotifications e s) = Inr None)
   \<and> (\<forall>x. platformOS e = ''android'' \<longrightarrow> setNotificationChannelAsync e = Inl x \<longrightarrow>
          outcome (registerForPushNotifications e s) = Inr None)"
  by (simp add: register_outcome split: sum.splits)

theorem registerForPushNotifications_never_throws_witness:
  "\<not> isDevice emulator_env
   \<and> outcome (registerForPushNotifications emulator_env unregistered) = Inr None
   \<and> getPermissionsAsync denied_env = Inr ''undetermined''
   \<and> requestPermissionsAsync denied_env = Inr ''denied''
   \<and> outcome (registerForPushNotifications denied_env unregistered) = Inr None
   \<and> getDevicePushTokenAsync no_token_env = Inl (Error ''Fetching the token failed'')
   \<and> outcome (registerForPushNotifications no_token_env unregistered) = Inr None"
  using registerForPushNotifications_never_throws [of emulator_env unregistered]
    registerForPushNotifications_never_throws [of denied_env unregistered]
    registerForPushNotifications_never_throws [of no_token_env unregistered]
  by (simp add: emulator_env_def denied_env_def no_token_env_def sample_defs)

section \<open>Errors of the backend request\<close>

lemma sendPushNotificationViaBackend_outcome:
  assumes "truthy (expoPushToken s)"
  shows "outcome (sendPushNotificationViaBackend e n s) =
     (case fetch e of
        Inl x \<Rightarrow> Inl x
      | Inr response \<Rightarrow>
          (case json_body response of
             Inl x \<Rightarrow> Inl x
           | Inr responseData \<Rightarrow>
               if ok response then Inr () else Inl (backend_error e responseData)))"
proof -
  obtain u where u: "getBackendBaseUrl e = Some u" "u \<noteq> []"
    using getBackendBaseUrl_Some by blast
  show ?thesis
    using assms
    by (simp add: sendPushNotificationViaBackend_def u js_defs run_defs split: sum.splits)
qed

lemma sendPushNotificationViaBackend_trace:
  assumes "truthy (expoPushToken s)"
  shows "length (fetches (trace (sendPushNotificationViaBackend e n s))) = 1
     \<and> (\<forall>x. outcome (sendPushNotificationViaBackend e n s) = Inl x \<longrightarrow>
           last (trace (sendPushNotificationViaBackend e n s)) =
             ConsoleError ''Error requesting backend to send notification:'')"
proof -
  obtain u where u: "getBackendBaseUrl e = Some u" "u \<noteq> []"
    using getBackendBaseUrl_Some by blast
  show ?thesis
    using assms
    by (simp add: sendPushNotificationViaBackend_def u js_defs run_defs fetches_append
        split: sum.splits)
qed

lemma sendPushNotificationViaBackend_state:
  "state_after (sendPushNotificationViaBackend e n s) = s"
  using sendPushNotificationViaBackend_run [of e n s] by (auto simp add: run_defs)

text \<open>
  C6, as amended. With a non-empty token stored, \<^verbatim>\<open>sendPushNotificationViaBackend\<close> sends
  one request and raises to its caller exactly when the fetch fails, reading the response
  body as JSON fails, or the response is not 2xx. The error of a failed fetch or body read
  is raised as it is. On a non-2xx response whose body is a JSON object, the message is
  the \<^verbatim>\<open>error\<close> field when that is a non-empty string, and
  \<^verbatim>\<open>Failed to request backend notification\<close> when the field is absent or falsy. Every
  raised error is logged and thrown again; the stored token is not touched.
\<close>

theorem sendPushNotificationViaBackend_raises:
  assumes "truthy (expoPushToken s)"
  shows "((\<exists>x. outcome (sendPushNotificationViaBackend e n s) = Inl x) \<longleftrightarrow>
            (case fetch e of
               Inl x \<Rightarrow> True
             | Inr response \<Rightarrow>
                 (case json_body response of Inl x \<Rightarrow> True | Inr responseData \<Rightarrow> \<not> ok response)))
       \<and> (\<forall>x. fetch e = Inl x \<longrightarrow> outcome (sendPushNotificationViaBackend e n s) = Inl x)
       \<and> (\<forall>response x. fetch e = Inr response \<longrightarrow> json_body response = Inl x \<longrightarrow>
              outcome (sendPushNotificationViaBackend e n s) = Inl x)
       \<and> (\<forall>response props. fetch e = Inr response \<longrightarrow> \<not> ok response \<longrightarrow>
              json_body response = Inr (JObj props) \<longrightarrow>
              (\<forall>m. map_of props ''error'' = Some (JStr m) \<longrightarrow> m \<noteq> [] \<longrightarrow>
                   outcome (sendPushNotificationViaBackend e n s) = Inl (Error m))
              \<and> (map_of props ''error'' = None \<longrightarrow>
                   outcome (sendPushNotificationViaBackend e n s) =
                     Inl (Error ''Failed to request backend notification''))
              \<and> (\<forall>v. map_of props ''error'' = Some v \<longrightarrow> \<not> js_truthy v \<longrightarrow>
                   outcome (sendPushNotificationViaBackend e n s) =
                     Inl (Error ''Failed to request backend notification'')))
       \<and> (\<forall>x. outcome (sendPushNotificationViaBackend e n s) = Inl x \<longrightarrow>
              last (trace (sendPushNotificationViaBackend e n s)) =
                ConsoleError ''Error requesting backend to send notification:'')
       \<and> length (fetches (trace (sendPushNotificationViaBackend e n s))) = 1
       \<and> state_after (sendPushNotificationViaBackend e n s) = s"
proof -
  note out = sendPushNotificationViaBackend_outcome [OF assms, of e n]
  have a: "(\<exists>x. outcome (sendPushNotificationViaBackend e n s) = Inl x) \<longleftrightarrow>
            (case fetch e of
               Inl x \<Rightarrow> True
             | Inr response \<Rightarrow>
                 (case json_body response of Inl x \<Rightarrow> True | Inr responseData \<Rightarrow> \<not> ok response))"
    by (simp add: out split: sum.splits)
  have b: "outcome (sendPushNotificationViaBackend e n s) = Inl x" if "fetch e = Inl x" for x
    using that by (simp add: out)
  have c: "outcome (sendPushNotificationViaBackend e n s) = Inl x"
    if "fetch e = Inr response" "json_body response = Inl x" for response x
    using that by (simp add: out)
  have d1: "outcome (sendPushNotificationViaBackend e n s) = Inl (Error m)"
    if "fetch e = Inr response" "\<not> ok response" "json_body response = Inr (JObj props)"
      "map_of props ''error'' = Some (JStr m)" "m \<noteq> []" for response props m
    using that by (simp add: out backend_error_def)
  have d2: "outcome (sendPushNotificationViaBackend e n s) =
              Inl (Error ''Failed to request backend notification'')"
    if "fetch e = Inr response" "\<not> ok response" "json_body response = Inr (JObj props)"
      "map_of props ''error'' = None" for response props
    using that by (simp add: out backend_error_def)
  have d3: "outcome (sendPushNotificationViaBackend e n s) =
              Inl (Error ''Failed to request backend notification'')"
    if "fetch e = Inr response" "\<not> ok response" "json_body response = Inr (JObj props)"
      "map_of props ''error'' = Some v" "\<not> js_truthy v" for response props v
    using that by (simp add: out backend_error_def)
  note f = sendPushNotificationViaBackend_trace [OF assms, of e n]
  note g = sendPushNotificationViaBackend_state [of e n s]
  from a b c d1 d2 d3 f g show ?thesis
    by blast
qed

theorem sendPushNotificationViaBackend_raises_witness:
  "truthy (expoPushToken registered)
   \<and> fetch failing_backend_env
       = Inr \<lparr>ok = False, json_body = Inr (JObj [(''error'', JStr ''quota exceeded'')])\<rparr>
   \<and> outcome (sendPushNotificationViaBackend failing_backend_env
                \<lparr>nd_title = ''T'', nd_body = ''B'', nd_data = None\<rparr> registered)
       = Inl (Error ''quota exceeded'')"
proof -
  have h: "truthy (expoPushToken registered)"
    by (simp add: sample_defs)
  have f: "fetch failing_backend_env
       = Inr \<lparr>ok = False, json_body = Inr (JObj [(''error'', JStr ''quota exceeded'')])\<rparr>"
    by (simp add: failing_backend_env_def sample_defs)
  from sendPushNotificationViaBackend_raises
    [OF h, of failing_backend_env "\<lparr>nd_title = ''T'', nd_body = ''B'', nd_data = None\<rparr>"] h f
  show ?thesis
    by simp
qed

text \<open>
  As first stated, C6 has an error raised only for a failed fetch or a non-2xx response.
  A 200 response whose body is not JSON raises as well: the body is read before the
  status is looked at.
\<close>

theorem sendPushNotificationViaBackend_raises_counterexample:
  "expoPushToken registered = Some ''fcm-token-1''
   \<and> fetch plain_text_env = Inr \<lparr>ok = True, json_body = Inl (SyntaxError ''JSON Parse error'')\<rparr>
   \<and> outcome (sendPushNotificationViaBackend plain_text_env
                \<lparr>nd_title = ''T'', nd_body = ''B'', nd_data = None\<rparr> registered)
       = Inl (SyntaxError ''JSON Parse error'')"
proof -
  have h: "truthy (expoPushToken registered)"
    by (simp add: sample_defs)
  have f: "fetch plain_text_env = Inr \<lparr>ok = True, json_body = Inl (SyntaxError ''JSON Parse error'')\<rparr>"
    by (simp add: plain_text_env_def sample_defs)
  show ?thesis
    by (simp add: sendPushNotificationViaBackend_outcome [OF h] f) (simp add: sample_defs)
qed


section \<open>Reading the cached token\<close>

lemma bridgeRequest_cached_token:
  assumes "expoPushToken s = Some t"
    and "webViewRef w"
    and "JSON_parse e data = Some parsed"
    and "get_prop parsed ''type'' = Some (JStr ''REQUEST_PUSH_TOKEN'')"
  shows "handleBridgeRequest e w data s =
     (Inr (), s,
      [PostMessage
         \<lparr>msg_type = ''PUSH_TOKEN'',
          msg_requestId = get_prop parsed ''requestId'',
          msg_payload = Some (JObj [(''token'', JStr t)]),
          msg_error = None\<rparr>])"
proof -
  have "parsed \<noteq> JNull"
    using assms(4) by auto
  then have "bridgeRequest e w data s =
     (Inr (), s,
      [PostMessage
         \<lparr>msg_type = ''PUSH_TOKEN'',
          msg_requestId = get_prop parsed ''requestId'',
          msg_payload = Some (JObj [(''token'', JStr t)]),
          msg_error = None\<rparr>])"
    using assms by (simp add: bridgeRequest_def postToWeb_def js_defs)
  then show ?thesis
    by (simp add: handleBridgeRequest_def
        withRequestGuard_run [where h = "bridgeRequest e w data"])
qed

text \<open>
  C7. With a token cached, two consecutive \<^verbatim>\<open>REQUEST_PUSH_TOKEN\<close> requests are both
  answered with that token. The second dispatch does nothing but post its response: no
  registration, no call into the operating system, no HTTP request, and the cached token
  stays.
\<close>

theorem request_push_token_twice:
  assumes "expoPushToken s = Some t"
    and "webViewRef w"
    and "JSON_parse e1 data1 = Some parsed1"
    and "get_prop parsed1 ''type'' = Some (JStr ''REQUEST_PUSH_TOKEN'')"
    and "JSON_parse e2 data2 = Some parsed2"
    and "get_prop parsed2 ''type'' = Some (JStr ''REQUEST_PUSH_TOKEN'')"
  shows "posted (trace (handleBridgeRequest e1 w data1 s)) =
           [\<lparr>msg_type = ''PUSH_TOKEN'',
             msg_requestId = get_prop parsed1 ''requestId'',
             msg_payload = Some (JObj [(''token'', JStr t)]),
             msg_error = None\<rparr>]
       \<and> trace (handleBridgeRequest e2 w data2 (state_after (handleBridgeRequest e1 w data1 s))) =
           [PostMessage
              \<lparr>msg_type = ''PUSH_TOKEN'',
               msg_requestId = get_prop parsed2 ''requestId'',
               msg_payload = Some (JObj [(''token'', JStr t)]),
               msg_error = None\<rparr>]
       \<and> fetches (trace (handleBridgeRequest e2 w data2
                           (state_after (handleBridgeRequest e1 w data1 s)))) = []
       \<and> os_calls (trace (handleBridgeRequest e2 w data2
                            (state_after (handleBridgeRequest e1 w data1 s)))) = []
       \<and> state_after (handleBridgeRequest e2 w data2
                        (state_after (handleBridgeRequest e1 w data1 s))) = s"
proof -
  have first: "handleBridgeRequest e1 w data1 s =
     (Inr (), s,
      [PostMessage
         \<lparr>msg_type = ''PUSH_TOKEN'',
          msg_requestId = get_prop parsed1 ''requestId'',
          msg_payload = Some (JObj [(''token'', JStr t)]),
          msg_error = None\<rparr>])"
    using assms(1-4) by (rule bridgeRequest_cached_token)
  have second: "handleBridgeRequest e2 w data2 s =
     (Inr (), s,
      [PostMessage
         \<lparr>msg_type = ''PUSH_TOKEN'',
          msg_requestId = get_prop parsed2 ''requestId'',
          msg_payload = Some (JObj [(''token'', JStr t)]),
          msg_error = None\<rparr>])"
    using assms(1,2,5,6) by (rule bridgeRequest_cached_token)
  show ?thesis
    by (simp add: first second run_defs os_calls_def)
qed

theorem request_push_token_twice_witness:
  "expoPushToken (state_after (registerForPushNotifications device_env unregistered))
     = Some ''fcm-token-1''
   \<and> webViewRef initial_bridge
   \<and> JSON_parse device_env request_token_text = Some request_token_json
   \<and> get_prop request_token_json ''type'' = Some (JStr ''REQUEST_PUSH_TOKEN'')
   \<and> posted (trace (handleBridgeRequest device_env initial_bridge request_token_text
        (state_after (registerForPushNotifications device_env unregistered)))) =
           [\<lparr>msg_type = ''PUSH_TOKEN'',
             msg_requestId = Some (JStr ''r1''),
             msg_payload = Some (JObj [(''token'', JStr ''fcm-token-1'')]),
             msg_error = None\<rparr>]
   \<and> trace (handleBridgeRequest device_env initial_bridge request_token_text
        (state_after (handleBridgeRequest device_env initial_bridge request_token_text
          (state_after (registerForPushNotifications device_env unregistered))))) =
           [PostMessage
              \<lparr>msg_type = ''PUSH_TOKEN'',
               msg_requestId = Some (JStr ''r1''),
               msg_payload = Some (JObj [(''token'', JStr ''fcm-token-1'')]),
               msg_error = None\<rparr>]"
proof -
  have o: "outcome (registerForPushNotifications device_env unregistered) = Inr (Some ''fcm-token-1'')"
    by (simp add: register_outcome) (simp add: sample_defs isRunningInExpoGo_def
        resolveProjectId_def js_or_def)
  then have h1: "expoPushToken (state_after (registerForPushNotifications device_env unregistered))
     = Some ''fcm-token-1''"
    by (rule register_success)
  have h2: "webViewRef initial_bridge"
    by (simp add: sample_defs)
  have h3: "JSON_parse device_env request_token_text = Some request_token_json"
    by (simp add: sample_defs)
  have h4: "get_prop request_token_json ''type'' = Some (JStr ''REQUEST_PUSH_TOKEN'')"
    by (simp add: sample_defs)
  have r: "get_prop request_token_json ''requestId'' = Some (JStr ''r1'')"
    by (simp add: sample_defs)
  from request_push_token_twice [OF h1 h2 h3 h4 h3 h4] h1 h2 h3 h4 r show ?thesis
    by simp
qed

section \<open>What changes the stored token\<close>








section \<open>The readiness handshake\<close>

lemma onLoadEnd_first:
  assumes "\<not> isWebReady w" "webViewRef w" "expoPushToken s = Some t" "t \<noteq> []"
  shows "onLoadEnd w s =
     (handleLoadEnd w,
      [PostMessage
         \<lparr>msg_type = ''PUSH_TOKEN'',
          msg_requestId = None,
          msg_payload = Some (JObj [(''token'', JStr t)]),
          msg_error = None\<rparr>])"
  using assms
  by (simp add: onLoadEnd_def rerender_def readinessEffect_def handleLoadEnd_def postToWeb_def
      js_defs run_defs)

lemma onLoadEnd_again:
  assumes "isWebReady w"
  shows "onLoadEnd w s = (handleLoadEnd w, [])"
  using assms
  by (simp add: onLoadEnd_def rerender_def handleLoadEnd_def js_defs run_defs)

lemma onLoadEnd_no_token:
  assumes "\<not> truthy (expoPushToken s)"
  shows "snd (onLoadEnd w s) = []"
  using assms
  by (simp add: onLoadEnd_def rerender_def readinessEffect_def handleLoadEnd_def js_defs run_defs)

lemma isWebReady_handleLoadEnd: "isWebReady (handleLoadEnd w)"
  by (simp add: handleLoadEnd_def)

lemma onLoadEnds_ready: "isWebReady w \<Longrightarrow> onLoadEnds k w s = []"
proof (induction k arbitrary: w)
  case 0
  show ?case by simp
next
  case (Suc k)
  then show ?case
    by (simp add: onLoadEnd_again isWebReady_handleLoadEnd)
qed

lemma onLoadEnds_no_token: "\<not> truthy (expoPushToken s) \<Longrightarrow> onLoadEnds k w s = []"
proof (induction k arbitrary: w)
  case 0
  show ?case by simp
next
  case (Suc k)
  then show ?case
    by (simp add: onLoadEnd_no_token)
qed

text \<open>
  C9. When the web view first reports the end of a load and a token is cached, one
  \<^verbatim>\<open>PUSH_TOKEN\<close> message without \<^verbatim>\<open>requestId\<close> is posted, and however many load ends
  follow, it stays the only one. The readiness flag is then set. The first render, before
  the flag is set, posts nothing, and nothing is posted when no token is cached. The
  effect tests the token for truthiness, so the cached token is a non-empty string.
\<close>

theorem readiness_pushes_token_once:
  assumes "webViewRef w" "\<not> isWebReady w"
  shows "(\<forall>t. expoPushToken s = Some t \<longrightarrow> t \<noteq> [] \<longrightarrow>
            onLoadEnds (Suc k) w s =
              [PostMessage
                 \<lparr>msg_type = ''PUSH_TOKEN'',
                  msg_requestId = None,
                  msg_payload = Some (JObj [(''token'', JStr t)]),
                  msg_error = None\<rparr>]
            \<and> snd (onLoadEnd (fst (onLoadEnd w s)) s) = [])
       \<and> isWebReady (fst (onLoadEnd w s))
       \<and> trace (firstRender w s) = []
       \<and> (\<not> truthy (expoPushToken s) \<longrightarrow> onLoadEnds k w s = [])"
proof -
  have a: "onLoadEnds (Suc k) w s =
              [PostMessage
                 \<lparr>msg_type = ''PUSH_TOKEN'',
                  msg_requestId = None,
                  msg_payload = Some (JObj [(''token'', JStr t)]),
                  msg_error = None\<rparr>]
            \<and> snd (onLoadEnd (fst (onLoadEnd w s)) s) = []"
    if "expoPushToken s = Some t" "t \<noteq> []" for t
    using assms that
    by (simp add: onLoadEnd_first onLoadEnd_again onLoadEnds_ready isWebReady_handleLoadEnd)
  have b: "isWebReady (fst (onLoadEnd w s))"
    by (simp add: onLoadEnd_def isWebReady_handleLoadEnd)
  have c: "trace (firstRender w s) = []"
    using assms by (simp add: firstRender_def readinessEffect_def js_defs run_defs)
  have d: "onLoadEnds k w s = []" if "\<not> truthy (expoPushToken s)"
    using that by (rule onLoadEnds_no_token)
  from a b c d show ?thesis
    by blast
qed

theorem readiness_pushes_token_once_witness:
  "webViewRef initial_bridge \<and> \<not> isWebReady initial_bridge
   \<and> expoPushToken registered = Some ''fcm-token-1''
   \<and> onLoadEnds 3 initial_bridge registered =
       [PostMessage
          \<lparr>msg_type = ''PUSH_TOKEN'',
           msg_requestId = None,
           msg_payload = Some (JObj [(''token'', JStr ''fcm-token-1'')]),
           msg_error = None\<rparr>]
   \<and> trace (firstRender initial_bridge registered) = []"
proof -
  have h1: "webViewRef initial_bridge"
    by (simp add: sample_defs)
  have h2: "\<not> isWebReady initial_bridge"
    by (simp add: sample_defs)
  have h3: "expoPushToken registered = Some ''fcm-token-1''"
    by (simp add: sample_defs)
  have n: "(3::nat) = Suc 2"
    by simp
  from readiness_pushes_token_once [OF h1 h2, of registered 2] h1 h2 h3 show ?thesis
    unfolding n by simp
qed

section \<open>The backend URL\<close>

text \<open>
  C10. \<^verbatim>\<open>getBackendBaseUrl\<close> always yields a non-empty string: the configured URL, else
  the one from the process environment, else the built-in one. So
  \<^verbatim>\<open>sendTokenToBackend\<close> and \<^verbatim>\<open>sendPushNotificationViaBackend\<close> never take their branch
  for a missing backend URL: the warning of that branch is never logged, and the request
  is sent (whenever, for the second, a token is stored).
\<close>

theorem backend_url_always_configured:
  "truthy (getBackendBaseUrl e)
   \<and> (truthy (extra_backendUrl e) \<longrightarrow> getBackendBaseUrl e = extra_backendUrl e)
   \<and> (\<not> truthy (extra_backendUrl e) \<longrightarrow> truthy (EXPO_PUBLIC_BACKEND_URL e) \<longrightarrow>
        getBackendBaseUrl e = EXPO_PUBLIC_BACKEND_URL e)
   \<and> (\<not> truthy (extra_backendUrl e) \<longrightarrow> \<not> truthy (EXPO_PUBLIC_BACKEND_URL e) \<longrightarrow>
        getBackendBaseUrl e = Some ''https://5fd5bd8a6a0c.ngrok-free.app'')
   \<and> ConsoleWarn ''No backend URL configured; skipping device token registration.''
        \<notin> set (trace (sendTokenToBackend e t s))
   \<and> length (fetches (trace (sendTokenToBackend e t s))) = 1
   \<and> ConsoleWarn ''No backend URL configured; cannot request backend notification.''
        \<notin> set (trace (sendPushNotificationViaBackend e n s))
   \<and> (truthy (expoPushToken s) \<longrightarrow>
        length (fetches (trace (sendPushNotificationViaBackend e n s))) = 1)"
proof -
  obtain u where u: "getBackendBaseUrl e = Some u" "u \<noteq> []"
    using getBackendBaseUrl_Some by blast
  have a: "truthy (getBackendBaseUrl e)"
    by (simp add: u)
  have b: "(truthy (extra_backendUrl e) \<longrightarrow> getBackendBaseUrl e = extra_backendUrl e)
   \<and> (\<not> truthy (extra_backendUrl e) \<longrightarrow> truthy (EXPO_PUBLIC_BACKEND_URL e) \<longrightarrow>
        getBackendBaseUrl e = EXPO_PUBLIC_BACKEND_URL e)
   \<and> (\<not> truthy (extra_backendUrl e) \<longrightarrow> \<not> truthy (EXPO_PUBLIC_BACKEND_URL e) \<longrightarrow>
        getBackendBaseUrl e = Some ''https://5fd5bd8a6a0c.ngrok-free.app'')"
    by (simp add: getBackendBaseUrl_def js_or_def)
  have c: "ConsoleWarn ''No backend URL configured; skipping device token registration.''
        \<notin> set (trace (sendTokenToBackend e t s))
      \<and> length (fetches (trace (sendTokenToBackend e t s))) = 1"
    using sendTokenToBackend_run [of e t s] by (auto simp add: run_defs)
  have d: "ConsoleWarn ''No backend URL configured; cannot request backend notification.''
        \<notin> set (trace (sendPushNotificationViaBackend e n s))"
    by (simp add: sendPushNotificationViaBackend_def u js_defs run_defs split: sum.splits)
  have f: "length (fetches (trace (sendPushNotificationViaBackend e n s))) = 1"
    if "truthy (expoPushToken s)"
    using sendPushNotificationViaBackend_trace [OF that] by simp
  from a b c d f show ?thesis
    by blast
qed

theorem backend_url_always_configured_witness:
  "truthy (expoPushToken registered)
   \<and> \<not> truthy (extra_backendUrl device_env) \<and> \<not> truthy (EXPO_PUBLIC_BACKEND_URL device_env)
   \<and> getBackendBaseUrl device_env = Some ''https://5fd5bd8a6a0c.ngrok-free.app''
   \<and> length (fetches (trace (sendPushNotificationViaBackend device_env
               \<lparr>nd_title = ''T'', nd_body = ''B'', nd_data = None\<rparr> registered))) = 1"
  using backend_url_always_configured
    [of device_env "''fcm-token-1''" registered "\<lparr>nd_title = ''T'', nd_body = ''B'', nd_data = None\<rparr>"]
  by (simp add: sample_defs)

end
